theory Spec2Isabelle
  imports Main "HOL-Library.Word"
begin

section \<open>Bitcoin family transaction flow (apps/btc\_family/btc\_txn.c)\<close>

text \<open>
  The file embeds the static functions of \<^verbatim>\<open>btc_txn.c\<close> and its one global function
  \<^verbatim>\<open>btc_sign_transaction\<close>. The flow talks to three parties: the host (queries come
  in, results and errors go out), the user (prompts are answered) and the heap. All of
  them are explicit in the state \<open>st\<close>: the queries still to come, the answers still to
  come, and the trace of everything the flow did, in order.
\<close>

subsection \<open>Data received from the host\<close>

type_synonym u8 = "8 word"
type_synonym u32 = "32 word"
type_synonym u64 = "64 word"

text \<open>
  \<^verbatim>\<open>size_t\<close>, the type of \<^verbatim>\<open>sizeof\<close> and of the argument of \<^verbatim>\<open>malloc\<close>: the
  firmware runs on a 32-bit microcontroller, where it has 32 bits.
\<close>

type_synonym size_t = "32 word"

text \<open>
  A nanopb byte array (\<^verbatim>\<open>PB_BYTES_ARRAY_T\<close>): a buffer of fixed capacity, \<open>pb_bytes\<close>,
  and the number of bytes of it that are valid, \<open>pb_size\<close>.
\<close>

record pb_bytes_array_t =
  pb_size :: nat
  pb_bytes :: "u8 list"

record btc_sign_txn_initiate_request_t =
  wallet_id :: "u8 list"
  derivation_path :: "u32 list"
  derivation_path_count :: nat

record btc_sign_txn_metadata_t =
  sighash :: u32
  input_count :: u32
  output_count :: u32

text \<open>
  The input sub-request of a query. Its fields carry the prefix \<open>rq_\<close>, since the record
  of the context, \<open>btc_txn_input_t\<close>, has fields of the same names.
\<close>

record btc_sign_txn_input_t =
  prev_txn :: pb_bytes_array_t
  rq_prev_txn_hash :: "u8 list"
  rq_prev_output_index :: u32
  rq_value :: u64
  rq_sequence :: u32
  rq_script_pub_key :: pb_bytes_array_t
  rq_change_index :: u32
  rq_address_index :: u32

record btc_txn_input_t =
  prev_txn_hash :: "u8 list"
  prev_output_index :: u32
  in_value :: u64
  sequence :: u32
  script_pub_key :: pb_bytes_array_t
  change_index :: u32
  address_index :: u32

record btc_sign_txn_output_t =
  out_value :: u64
  out_script_pub_key :: pb_bytes_array_t
  is_change :: bool

text \<open>
  The discriminant \<^verbatim>\<open>which_request\<close> of a sign-transaction request. The tags are
  constants of a generated header; \<open>BTC_SIGN_TXN_REQUEST_OTHER\<close> stands for every other
  number the field can hold.
\<close>

datatype request_tag =
    BTC_SIGN_TXN_REQUEST_INITIATE_TAG
  | BTC_SIGN_TXN_REQUEST_META_TAG
  | BTC_SIGN_TXN_REQUEST_INPUT_TAG
  | BTC_SIGN_TXN_REQUEST_OUTPUT_TAG
  | BTC_SIGN_TXN_REQUEST_SIGNATURE_TAG
  | BTC_SIGN_TXN_REQUEST_OTHER nat

text \<open>
  \<^verbatim>\<open>btc_sign_txn_request_t\<close> is a discriminant and a C union. The code reads a member
  of the union whatever the discriminant says, so the model keeps every member as a
  field of its own (the sub-request \<^verbatim>\<open>meta\<close> is the field \<open>meta_rq\<close>, and so on);
  that the members share their storage is not modelled.
\<close>

record btc_sign_txn_request_t =
  which_request :: request_tag
  initiate_rq :: btc_sign_txn_initiate_request_t
  meta_rq :: btc_sign_txn_metadata_t
  input_rq :: btc_sign_txn_input_t
  output_rq :: btc_sign_txn_output_t

record btc_query_t =
  sign_txn :: btc_sign_txn_request_t

subsection \<open>The transaction context\<close>

text \<open>
  \<^verbatim>\<open>inputs\<close> and \<^verbatim>\<open>outputs\<close> are pointers: \<open>None\<close> is \<^verbatim>\<open>NULL\<close>, \<open>Some xs\<close> is
  allocated storage holding the records \<open>xs\<close>.
\<close>

record btc_txn_context_t =
  init_info :: btc_sign_txn_initiate_request_t
  metadata :: btc_sign_txn_metadata_t
  inputs :: "btc_txn_input_t list option"
  outputs :: "btc_sign_txn_output_t list option"

subsection \<open>What the flow does to the outside\<close>

datatype error_tag = ERROR_COMMON_ERROR_CORRUPT_DATA_TAG

datatype data_flow_error = ERROR_DATA_FLOW_INVALID_REQUEST | ERROR_DATA_FLOW_INVALID_DATA

datatype response_tag =
    BTC_SIGN_TXN_RESPONSE_CONFIRMATION_TAG
  | BTC_SIGN_TXN_RESPONSE_META_ACCEPTED_TAG
  | BTC_SIGN_TXN_RESPONSE_INPUT_ACCEPTED_TAG
  | BTC_SIGN_TXN_RESPONSE_OUTPUT_ACCEPTED_TAG
  | BTC_SIGN_TXN_RESPONSE_SIGNATURE_TAG

text \<open>
  The texts shown to the user. The format strings are constants of a header that is
  not among the sources, so a text is the name of its constant with the arguments
  \<^verbatim>\<open>snprintf\<close> gets; \<open>Text\<close> is a string computed by a formatting helper.
\<close>

datatype ui_text =
    UI_TEXT_BTC_SEND_PROMPT string string
  | UI_TEXT_BTC_RECEIVER nat
  | UI_TEXT_BTC_FEE
  | Ui_text_warning_txn_fee_too_high
  | Ui_text_check_cysync
  | Text string

datatype phase =
    Handle_initiate_query
  | Fetch_transaction_meta
  | Fetch_valid_input
  | Fetch_valid_output
  | Get_user_verification
  | Sign_input_utxo

text \<open>
  The trace. \<open>Call p\<close> and \<open>Returned p r\<close> are written by \<^verbatim>\<open>btc_sign_transaction\<close>
  around its call of the phase function \<open>p\<close>; every other event is a call of the
  function it is named after. \<open>Malloc_inputs n\<close> and \<open>Malloc_outputs n\<close> are the two
  calls of \<^verbatim>\<open>malloc\<close> in \<^verbatim>\<open>fetch_transaction_meta\<close>, each for \<open>n\<close> bytes.
\<close>

datatype event =
    Btc_send_error error_tag data_flow_error
  | Btc_send_result response_tag
  | Core_confirmation ui_text
  | Core_scroll_page ui_text ui_text
  | Core_status_set_flow_status
  | Delay_scr_init ui_text
  | Malloc_context
  | Malloc_inputs nat
  | Malloc_outputs nat
  | Free_inputs
  | Free_outputs
  | Free_context
  | Call phase
  | Returned phase bool

text \<open>
  The state. \<open>query\<close> is the caller's buffer \<^verbatim>\<open>*query\<close>, \<open>btc_txn_context\<close> the
  storage the static pointer of that name points to. \<open>host\<close> lists what the coming
  calls of \<^verbatim>\<open>btc_get_query\<close> will deliver: its return value and the content of the
  buffer after it. \<open>user\<close> lists the answers to the coming prompts.
\<close>

record st =
  query :: btc_query_t
  btc_txn_context :: btc_txn_context_t
  host :: "(bool \<times> btc_query_t) list"
  user :: "bool list"
  trace :: "event list"

subsection \<open>Functions of other files\<close>

text \<open>
  The helpers the flow calls are defined in files that are not among the sources. The
  pure ones are parameters of the model, collected in \<open>externs\<close>:
  \<^item> \<open>btc_verify_input\<close> gets the raw previous transaction, its size and a pointer to
    the input record of the context; it returns its verdict and what it left in the
    record;
  \<^item> \<open>btc_get_txn_fee\<close> returns \<open>None\<close> for \<^verbatim>\<open>false\<close> and \<open>Some fee\<close> for
    \<^verbatim>\<open>true\<close> with \<^verbatim>\<open>*fee\<close> set;
  \<^item> \<open>get_wallet_name_by_id\<close> returns the name it wrote, or \<open>None\<close> for
    \<^verbatim>\<open>false\<close>;
  \<^item> \<open>sizeof_btc_txn_input_t\<close> and \<open>sizeof_btc_sign_txn_output_t\<close> are the sizes of
    the two record types, which are declared in headers that are not among the
    sources;
  \<^item> \<open>malloc ex s n\<close> tells whether the allocator, called in the state \<open>s\<close> for
    \<open>n\<close> bytes, provides the storage or returns \<^verbatim>\<open>NULL\<close>;
  \<^item> \<open>uninit_input\<close> and \<open>uninit_output\<close> are the contents of freshly allocated
    storage, which \<^verbatim>\<open>malloc\<close> does not initialise.
\<close>

record externs =
  g_app_name :: string
  btc_derivation_path_guard :: "u32 list \<Rightarrow> nat \<Rightarrow> bool"
  get_wallet_name_by_id :: "u8 list \<Rightarrow> string option"
  btc_verify_input :: "u8 list \<Rightarrow> nat \<Rightarrow> btc_txn_input_t \<Rightarrow> bool \<times> btc_txn_input_t"
  format_value :: "u64 \<Rightarrow> string"
  script_output_to_address :: "u8 list \<Rightarrow> nat \<Rightarrow> string"
  get_transaction_fee_threshold :: "btc_txn_context_t \<Rightarrow> u64"
  btc_get_txn_fee :: "btc_txn_context_t \<Rightarrow> u64 option"
  sizeof_btc_txn_input_t :: size_t
  sizeof_btc_sign_txn_output_t :: size_t
  malloc :: "st \<Rightarrow> size_t \<Rightarrow> bool"
  uninit_input :: "nat \<Rightarrow> btc_txn_input_t"
  uninit_output :: "nat \<Rightarrow> btc_sign_txn_output_t"

definition emit :: "event \<Rightarrow> st \<Rightarrow> st" where
  "emit e s = s\<lparr>trace := trace s @ [e]\<rparr>"

definition btc_send_error :: "error_tag \<Rightarrow> data_flow_error \<Rightarrow> st \<Rightarrow> st" where
  "btc_send_error tag code s = emit (Btc_send_error tag code) s"

text \<open>
  \<^verbatim>\<open>btc_get_query\<close> waits for the next query of the host and decodes it into the
  buffer; its check of the query against \<^verbatim>\<open>BTC_QUERY_SIGN_TXN_TAG\<close> is part of its
  return value. When the host has nothing more to deliver the transport gives up: the
  call returns \<^verbatim>\<open>false\<close> and leaves the buffer as it was.
\<close>

definition btc_get_query :: "st \<Rightarrow> bool \<times> st" where
  "btc_get_query s =
     (case host s of
        [] \<Rightarrow> (False, s)
      | (ok, q) # rest \<Rightarrow> (ok, s\<lparr>query := q, host := rest\<rparr>))"

text \<open>
  The two prompts of the user interface. Each shows its text and returns the next
  answer of the user; with no answer left the prompt is taken as declined. What the
  interface does with the callback \<^verbatim>\<open>btc_send_error\<close> it is given is not part of
  the trace.
\<close>

definition next_answer :: "st \<Rightarrow> bool \<times> st" where
  "next_answer s =
     (case user s of
        [] \<Rightarrow> (False, s)
      | a # rest \<Rightarrow> (a, s\<lparr>user := rest\<rparr>))"

definition core_confirmation :: "ui_text \<Rightarrow> st \<Rightarrow> bool \<times> st" where
  "core_confirmation msg s = next_answer (emit (Core_confirmation msg) s)"

definition core_scroll_page :: "ui_text \<Rightarrow> ui_text \<Rightarrow> st \<Rightarrow> bool \<times> st" where
  "core_scroll_page title body s = next_answer (emit (Core_scroll_page title body) s)"

definition core_status_set_flow_status :: "st \<Rightarrow> st" where
  "core_status_set_flow_status s = emit Core_status_set_flow_status s"

text \<open>The opcode of a data-carrier script, a constant of \<^verbatim>\<open>script.h\<close>.\<close>

definition OP_RETURN :: u8 where
  "OP_RETURN = 0x6a"

text \<open>
  \<^verbatim>\<open>memcpy(dst, src, n)\<close> on byte buffers: the first \<open>n\<close> bytes of \<open>dst\<close> are replaced
  by those of \<open>src\<close>.
\<close>

definition memcpy :: "u8 list \<Rightarrow> u8 list \<Rightarrow> nat \<Rightarrow> u8 list" where
  "memcpy dst src n = take n src @ drop n dst"

text \<open>
  Element \<open>idx\<close> of allocated storage. Outside the storage, or through \<^verbatim>\<open>NULL\<close>,
  an access has no defined behaviour in C: the functions below look the element up
  before they read or write it, and stop with \<open>None\<close> when there is none.
\<close>

definition element :: "'a list option \<Rightarrow> nat \<Rightarrow> 'a option" where
  "element p idx =
     (case p of
        None \<Rightarrow> None
      | Some xs \<Rightarrow> if idx < length xs then Some (xs ! idx) else None)"

text \<open>
  What a call of \<^verbatim>\<open>malloc\<close> for \<open>n\<close> bytes leaves in a pointer to records of
  \<open>elem_size\<close> bytes each: \<^verbatim>\<open>NULL\<close> when the allocator has no storage (\<open>ok\<close> is
  false), and otherwise storage for as many whole records as \<open>n\<close> bytes hold, with the
  contents \<open>content\<close>.
\<close>

definition allocate :: "bool \<Rightarrow> size_t \<Rightarrow> size_t \<Rightarrow> (nat \<Rightarrow> 'a) \<Rightarrow> 'a list option" where
  "allocate ok elem_size n content =
     (if ok then Some (map content [0..<unat n div unat elem_size]) else None)"

subsection \<open>The static functions\<close>

definition check_which_request :: "request_tag \<Rightarrow> st \<Rightarrow> bool \<times> st" where
  "check_which_request expected s =
     (if expected \<noteq> which_request (sign_txn (query s))
      then (False, btc_send_error ERROR_COMMON_ERROR_CORRUPT_DATA_TAG
                     ERROR_DATA_FLOW_INVALID_REQUEST s)
      else (True, s))"

definition validate_request_data :: "externs \<Rightarrow> st \<Rightarrow> bool \<times> st" where
  "validate_request_data ex s =
     (let request = sign_txn (query s) in
      if \<not> btc_derivation_path_guard ex (derivation_path (initiate_rq request))
                (derivation_path_count (initiate_rq request))
      then (False, btc_send_error ERROR_COMMON_ERROR_CORRUPT_DATA_TAG
                     ERROR_DATA_FLOW_INVALID_DATA s)
      else (True, s))"

definition send_response :: "response_tag \<Rightarrow> st \<Rightarrow> st" where
  "send_response which_response s = emit (Btc_send_result which_response) s"

definition handle_initiate_query :: "externs \<Rightarrow> st \<Rightarrow> bool \<times> st" where
  "handle_initiate_query ex s =
     (case check_which_request BTC_SIGN_TXN_REQUEST_INITIATE_TAG s of (r1, s1) \<Rightarrow>
      if \<not> r1 then (False, s1) else
      case validate_request_data ex s1 of (r2, s2) \<Rightarrow>
      if \<not> r2 then (False, s2) else
      (case get_wallet_name_by_id ex (wallet_id (initiate_rq (sign_txn (query s2)))) of
         None \<Rightarrow> (False, s2)
       | Some wallet_name \<Rightarrow>
           (case core_confirmation (UI_TEXT_BTC_SEND_PROMPT (g_app_name ex) wallet_name) s2
            of (r3, s3) \<Rightarrow>
              if \<not> r3 then (False, s3) else
              let s4 = core_status_set_flow_status s3;
                  s5 = s4\<lparr>btc_txn_context :=
                         (btc_txn_context s4)\<lparr>init_info := initiate_rq (sign_txn (query s4))\<rparr>\<rparr>
              in (True, send_response BTC_SIGN_TXN_RESPONSE_CONFIRMATION_TAG s5))))"

text \<open>
  Lines 307 to 310 compute the two sizes as \<^verbatim>\<open>sizeof(record) * count\<close> in \<^verbatim>\<open>size_t\<close>,
  where the product wraps around. The pointers \<^verbatim>\<open>malloc\<close> returns are stored as they
  are: the source does not test them (line 311).
\<close>

definition fetch_transaction_meta :: "externs \<Rightarrow> st \<Rightarrow> bool \<times> st" where
  "fetch_transaction_meta ex s =
     (case btc_get_query s of (r1, s1) \<Rightarrow>
      if \<not> r1 then (False, s1) else
      case check_which_request BTC_SIGN_TXN_REQUEST_META_TAG s1 of (r2, s2) \<Rightarrow>
      if \<not> r2 then (False, s2) else
      let m = meta_rq (sign_txn (query s2)) in
      if 0x00000001 \<noteq> sighash m \<or> 0 = input_count m \<or> 0 = output_count m
      then (False, btc_send_error ERROR_COMMON_ERROR_CORRUPT_DATA_TAG
                     ERROR_DATA_FLOW_INVALID_DATA s2)
      else
        let s3 = s2\<lparr>btc_txn_context := (btc_txn_context s2)\<lparr>metadata := m\<rparr>\<rparr>;
            size_in = sizeof_btc_txn_input_t ex * input_count (metadata (btc_txn_context s3));
            s4 = emit (Malloc_inputs (unat size_in))
                   (s3\<lparr>btc_txn_context := (btc_txn_context s3)
                          \<lparr>inputs := allocate (malloc ex s3 size_in)
                                       (sizeof_btc_txn_input_t ex) size_in (uninit_input ex)\<rparr>\<rparr>);
            size_out = sizeof_btc_sign_txn_output_t ex *
                         output_count (metadata (btc_txn_context s4));
            s5 = emit (Malloc_outputs (unat size_out))
                   (s4\<lparr>btc_txn_context := (btc_txn_context s4)
                          \<lparr>outputs := allocate (malloc ex s4 size_out)
                                        (sizeof_btc_sign_txn_output_t ex) size_out
                                        (uninit_output ex)\<rparr>\<rparr>)
        in (True, send_response BTC_SIGN_TXN_RESPONSE_META_ACCEPTED_TAG s5))"

text \<open>
  Both loops start a round with the condition
  \<^verbatim>\<open>!btc_get_query(query, BTC_QUERY_SIGN_TXN_TAG) && !check_which_request(query, tag)\<close>.
  \<open>no_query_and_no_request\<close> is its value: \<^verbatim>\<open>&&\<close> evaluates its right operand only
  when the left one is true, that is when \<^verbatim>\<open>btc_get_query\<close> returned \<^verbatim>\<open>false\<close>.
\<close>

definition no_query_and_no_request :: "request_tag \<Rightarrow> st \<Rightarrow> bool \<times> st" where
  "no_query_and_no_request tag s =
     (case btc_get_query s of (r1, s1) \<Rightarrow>
      if \<not> r1
      then (case check_which_request tag s1 of (r2, s2) \<Rightarrow> (\<not> r2, s2))
      else (False, s1))"

definition store_input :: "nat \<Rightarrow> btc_txn_input_t \<Rightarrow> st \<Rightarrow> st" where
  "store_input idx v s =
     s\<lparr>btc_txn_context := (btc_txn_context s)
          \<lparr>inputs := map_option (\<lambda>xs. xs[idx := v]) (inputs (btc_txn_context s))\<rparr>\<rparr>"

definition store_output :: "nat \<Rightarrow> btc_sign_txn_output_t \<Rightarrow> st \<Rightarrow> st" where
  "store_output idx v s =
     s\<lparr>btc_txn_context := (btc_txn_context s)
          \<lparr>outputs := map_option (\<lambda>xs. xs[idx := v]) (outputs (btc_txn_context s))\<rparr>\<rparr>"

text \<open>
  The clone of the input details (lines 346 to 356): the fields of the record of the
  context are assigned from the input sub-request, in the order of the source. The
  script is copied for the length that was just assigned.
\<close>

definition clone_input :: "btc_sign_txn_input_t \<Rightarrow> btc_txn_input_t \<Rightarrow> btc_txn_input_t" where
  "clone_input rq slot =
     (let i1 = slot\<lparr>prev_output_index := rq_prev_output_index rq\<rparr>;
          i2 = i1\<lparr>address_index := rq_address_index rq\<rparr>;
          i3 = i2\<lparr>change_index := rq_change_index rq\<rparr>;
          i4 = i3\<lparr>in_value := rq_value rq\<rparr>;
          i5 = i4\<lparr>sequence := rq_sequence rq\<rparr>;
          i6 = i5\<lparr>script_pub_key :=
                  (script_pub_key i5)\<lparr>pb_size := pb_size (rq_script_pub_key rq)\<rparr>\<rparr>;
          i7 = i6\<lparr>prev_txn_hash := memcpy (prev_txn_hash i6) (rq_prev_txn_hash rq) 32\<rparr>
      in i7\<lparr>script_pub_key :=
              (script_pub_key i7)\<lparr>pb_bytes :=
                 memcpy (pb_bytes (script_pub_key i7)) (pb_bytes (rq_script_pub_key rq))
                   (pb_size (script_pub_key i7))\<rparr>\<rparr>)"

text \<open>
  One round of the loop of \<^verbatim>\<open>fetch_valid_input\<close>. The result is \<open>None\<close> when the round
  reaches outside the storage of the inputs, \<open>Some (False, s)\<close> when the function returns
  \<^verbatim>\<open>false\<close> in this round, and \<open>Some (True, s)\<close> when the loop goes on.
\<close>

definition fetch_valid_input_round :: "externs \<Rightarrow> nat \<Rightarrow> st \<Rightarrow> (bool \<times> st) option" where
  "fetch_valid_input_round ex idx s =
     (case no_query_and_no_request BTC_SIGN_TXN_REQUEST_INPUT_TAG s of (c, s1) \<Rightarrow>
      if c then Some (False, s1) else
      let txn = prev_txn (input_rq (sign_txn (query s1))) in
      (case element (inputs (btc_txn_context s1)) idx of
         None \<Rightarrow> None
       | Some slot \<Rightarrow>
           (case btc_verify_input ex (pb_bytes txn) (pb_size txn) slot of (ok, slot') \<Rightarrow>
              let s2 = store_input idx slot' s1 in
              if \<not> ok
              then Some (False, btc_send_error ERROR_COMMON_ERROR_CORRUPT_DATA_TAG
                                 ERROR_DATA_FLOW_INVALID_DATA s2)
              else
                let s3 = store_input idx (clone_input (input_rq (sign_txn (query s2))) slot') s2
                in Some (True, send_response BTC_SIGN_TXN_RESPONSE_INPUT_ACCEPTED_TAG s3))))"

lemma metadata_fetch_valid_input_round:
  "fetch_valid_input_round ex idx s = Some (r, s') \<Longrightarrow>
   metadata (btc_txn_context s') = metadata (btc_txn_context s)"
  by (auto simp: fetch_valid_input_round_def no_query_and_no_request_def btc_get_query_def
        check_which_request_def btc_send_error_def send_response_def emit_def store_input_def
        Let_def
      split: prod.splits if_splits option.splits list.splits)

function fetch_valid_input_from :: "externs \<Rightarrow> nat \<Rightarrow> st \<Rightarrow> (bool \<times> st) option" where
  "fetch_valid_input_from ex idx s =
     (if idx < unat (input_count (metadata (btc_txn_context s))) then
        (case fetch_valid_input_round ex idx s of
           None \<Rightarrow> None
         | Some (r, s') \<Rightarrow>
             if \<not> r then Some (False, s') else fetch_valid_input_from ex (idx + 1) s')
      else Some (True, s))"
  by pat_completeness auto
termination
  by (relation "measure (\<lambda>(ex, idx, s). unat (input_count (metadata (btc_txn_context s))) - idx)")
     (auto dest: metadata_fetch_valid_input_round)

declare fetch_valid_input_from.simps [simp del]

definition fetch_valid_input :: "externs \<Rightarrow> st \<Rightarrow> (bool \<times> st) option" where
  "fetch_valid_input ex s = fetch_valid_input_from ex 0 s"

text \<open>
  One round of the loop of \<^verbatim>\<open>fetch_valid_output\<close>, with the flag
  \<^verbatim>\<open>zero_value_transaction\<close> passed along. The result is as for the inputs.
\<close>

definition fetch_valid_output_round :: "nat \<Rightarrow> bool \<Rightarrow> st \<Rightarrow> (bool \<times> bool \<times> st) option" where
  "fetch_valid_output_round idx zero_value_transaction s =
     (case no_query_and_no_request BTC_SIGN_TXN_REQUEST_OUTPUT_TAG s of (c, s1) \<Rightarrow>
      if c then Some (False, zero_value_transaction, s1) else
      let out = output_rq (sign_txn (query s1)) in
      (case element (outputs (btc_txn_context s1)) idx of
         None \<Rightarrow> None
       | Some slot \<Rightarrow>
           let s2 = store_output idx out s1;
               zero = (if 0 \<noteq> out_value out then False else zero_value_transaction)
           in if OP_RETURN = pb_bytes (out_script_pub_key out) ! 0 \<and> 0 \<noteq> out_value out
              then Some (False, zero, btc_send_error ERROR_COMMON_ERROR_CORRUPT_DATA_TAG
                                        ERROR_DATA_FLOW_INVALID_DATA s2)
              else Some (True, zero, send_response BTC_SIGN_TXN_RESPONSE_INPUT_ACCEPTED_TAG s2)))"

lemma metadata_fetch_valid_output_round:
  "fetch_valid_output_round idx z s = Some (r, z', s') \<Longrightarrow>
   metadata (btc_txn_context s') = metadata (btc_txn_context s)"
  by (auto simp: fetch_valid_output_round_def no_query_and_no_request_def btc_get_query_def
        check_which_request_def btc_send_error_def send_response_def emit_def store_output_def
        Let_def
      split: prod.splits if_splits option.splits list.splits)

function fetch_valid_output_from :: "nat \<Rightarrow> bool \<Rightarrow> st \<Rightarrow> (bool \<times> st) option" where
  "fetch_valid_output_from idx zero_value_transaction s =
     (if idx < unat (output_count (metadata (btc_txn_context s))) then
        (case fetch_valid_output_round idx zero_value_transaction s of
           None \<Rightarrow> None
         | Some (r, zero, s') \<Rightarrow>
             if \<not> r then Some (False, s') else fetch_valid_output_from (idx + 1) zero s')
      else if True = zero_value_transaction
        then Some (False, btc_send_error ERROR_COMMON_ERROR_CORRUPT_DATA_TAG
                            ERROR_DATA_FLOW_INVALID_DATA s)
        else Some (True, s))"
  by pat_completeness auto
termination
  by (relation "measure (\<lambda>(idx, z, s). unat (output_count (metadata (btc_txn_context s))) - idx)")
     (auto dest: metadata_fetch_valid_output_round)

declare fetch_valid_output_from.simps [simp del]

definition fetch_valid_output :: "st \<Rightarrow> (bool \<times> st) option" where
  "fetch_valid_output s = fetch_valid_output_from 0 True s"

text \<open>
  One round of the loop of \<^verbatim>\<open>get_user_verification\<close>: a change output is skipped
  (\<^verbatim>\<open>continue\<close>), any other output is shown on two pages, its address first.
\<close>

definition get_user_verification_round :: "externs \<Rightarrow> nat \<Rightarrow> st \<Rightarrow> (bool \<times> st) option" where
  "get_user_verification_round ex idx s =
     (case element (outputs (btc_txn_context s)) idx of
        None \<Rightarrow> None
      | Some out \<Rightarrow>
          let script = out_script_pub_key out;
              title = UI_TEXT_BTC_RECEIVER (idx + 1)
          in if True = is_change out then Some (True, s)
             else
               let val = Text (format_value ex (out_value out));
                   address = Text (script_output_to_address ex (pb_bytes script) (pb_size script))
               in case core_scroll_page title address s of (r1, s1) \<Rightarrow>
                    if \<not> r1 then Some (False, s1) else
                    case core_scroll_page title val s1 of (r2, s2) \<Rightarrow>
                      if \<not> r2 then Some (False, s2) else Some (True, s2))"

lemma context_get_user_verification_round:
  "get_user_verification_round ex idx s = Some (r, s') \<Longrightarrow>
   btc_txn_context s' = btc_txn_context s"
  by (auto simp: get_user_verification_round_def core_scroll_page_def next_answer_def
        emit_def Let_def
      split: prod.splits if_splits option.splits list.splits)

function get_user_verification_from :: "externs \<Rightarrow> nat \<Rightarrow> st \<Rightarrow> (bool \<times> st) option" where
  "get_user_verification_from ex idx s =
     (if idx < unat (output_count (metadata (btc_txn_context s))) then
        (case get_user_verification_round ex idx s of
           None \<Rightarrow> None
         | Some (r, s') \<Rightarrow>
             if \<not> r then Some (False, s') else get_user_verification_from ex (idx + 1) s')
      else Some (True, s))"
  by pat_completeness auto
termination
  by (relation "measure (\<lambda>(ex, idx, s). unat (output_count (metadata (btc_txn_context s))) - idx)")
     (auto dest: context_get_user_verification_round)

declare get_user_verification_from.simps [simp del]

text \<open>
  After the loop (lines 421 to 443): the fee ceiling, the fee, the warning for a fee
  above the ceiling and the page with the fee. \<^verbatim>\<open>&&\<close> shows the warning only when
  the fee is above the ceiling.
\<close>

definition verify_fee :: "externs \<Rightarrow> st \<Rightarrow> bool \<times> st" where
  "verify_fee ex s =
     (let max_fee = get_transaction_fee_threshold ex (btc_txn_context s) in
      case btc_get_txn_fee ex (btc_txn_context s) of
        None \<Rightarrow> (False, btc_send_error ERROR_COMMON_ERROR_CORRUPT_DATA_TAG
                           ERROR_DATA_FLOW_INVALID_DATA s)
      | Some fee_in_satoshi \<Rightarrow>
          (case (if fee_in_satoshi > max_fee
                 then core_confirmation Ui_text_warning_txn_fee_too_high s
                 else (True, s)) of (r1, s1) \<Rightarrow>
             if fee_in_satoshi > max_fee \<and> \<not> r1 then (False, s1) else
             case core_scroll_page UI_TEXT_BTC_FEE (Text (format_value ex fee_in_satoshi)) s1
             of (r2, s2) \<Rightarrow> if \<not> r2 then (False, s2) else (True, s2)))"

definition get_user_verification :: "externs \<Rightarrow> st \<Rightarrow> (bool \<times> st) option" where
  "get_user_verification ex s =
     (case get_user_verification_from ex 0 s of
        None \<Rightarrow> None
      | Some (r, s1) \<Rightarrow> if \<not> r then Some (False, s1) else Some (verify_fee ex s1))"

definition sign_input_utxo :: "st \<Rightarrow> bool \<times> st" where
  "sign_input_utxo s =
     (case btc_get_query s of (r1, s1) \<Rightarrow>
      if \<not> r1 then (False, s1) else
      case check_which_request BTC_SIGN_TXN_REQUEST_SIGNATURE_TAG s1 of (r2, s2) \<Rightarrow>
      if \<not> r2 then (False, s2) else (False, s2))"

subsection \<open>The global function\<close>

text \<open>
  \<open>call p f\<close> is a call of the phase function \<open>f\<close> with the two marks of the trace
  around it.
\<close>

definition call :: "phase \<Rightarrow> (st \<Rightarrow> (bool \<times> st) option) \<Rightarrow> st \<Rightarrow> (bool \<times> st) option" where
  "call p f s =
     (case f (emit (Call p) s) of
        None \<Rightarrow> None
      | Some (r, s') \<Rightarrow> Some (r, emit (Returned p r) s'))"

text \<open>
  The condition of line 464,
  \<^verbatim>\<open>!handle_initiate_query(query) && !fetch_transaction_meta(query) && ... && !sign_input_utxo(query)\<close>:
  \<^verbatim>\<open>&&\<close> goes on to its right operand only when the left one is true, that is when
  the phase function returned \<^verbatim>\<open>false\<close>.
\<close>

definition all_phases_failed :: "externs \<Rightarrow> st \<Rightarrow> (bool \<times> st) option" where
  "all_phases_failed ex s =
     (case call Handle_initiate_query (\<lambda>s. Some (handle_initiate_query ex s)) s of
        None \<Rightarrow> None
      | Some (r1, s1) \<Rightarrow>
     if r1 then Some (False, s1) else
    (case call Fetch_transaction_meta (\<lambda>s. Some (fetch_transaction_meta ex s)) s1 of
        None \<Rightarrow> None
      | Some (r2, s2) \<Rightarrow>
     if r2 then Some (False, s2) else
    (case call Fetch_valid_input (fetch_valid_input ex) s2 of
        None \<Rightarrow> None
      | Some (r3, s3) \<Rightarrow>
     if r3 then Some (False, s3) else
    (case call Fetch_valid_output fetch_valid_output s3 of
        None \<Rightarrow> None
      | Some (r4, s4) \<Rightarrow>
     if r4 then Some (False, s4) else
    (case call Get_user_verification (get_user_verification ex) s4 of
        None \<Rightarrow> None
      | Some (r5, s5) \<Rightarrow>
     if r5 then Some (False, s5) else
    (case call Sign_input_utxo (\<lambda>s. Some (sign_input_utxo s)) s5 of
        None \<Rightarrow> None
      | Some (r6, s6) \<Rightarrow> Some (\<not> r6, s6)))))))"

text \<open>
  The context after \<^verbatim>\<open>malloc\<close> and \<^verbatim>\<open>memzero\<close>: numbers are zero, pointers are
  \<^verbatim>\<open>NULL\<close>. The arrays of \<open>init_info\<close> are left empty: their capacities are constants
  of a header that is not among the sources, and the flow reads none of them before it
  has written them.
\<close>

definition zero_context :: btc_txn_context_t where
  "zero_context =
     \<lparr>init_info = \<lparr>wallet_id = [], derivation_path = [], derivation_path_count = 0\<rparr>,
      metadata = \<lparr>sighash = 0, input_count = 0, output_count = 0\<rparr>,
      inputs = None,
      outputs = None\<rparr>"

text \<open>
  \<open>start q h u\<close> is the state in which the flow starts: the caller's query \<open>q\<close>, the
  queries \<open>h\<close> and the answers \<open>u\<close> to come, the context allocated and zeroed. The
  allocation of the context is taken to succeed: the flow uses the context in its
  next statement.
\<close>

definition start :: "btc_query_t \<Rightarrow> (bool \<times> btc_query_t) list \<Rightarrow> bool list \<Rightarrow> st" where
  "start q h u =
     \<lparr>query = q, btc_txn_context = zero_context, host = h, user = u, trace = [Malloc_context]\<rparr>"

definition btc_sign_transaction ::
  "externs \<Rightarrow> btc_query_t \<Rightarrow> (bool \<times> btc_query_t) list \<Rightarrow> bool list \<Rightarrow> st option" where
  "btc_sign_transaction ex q h u =
     (case all_phases_failed ex (start q h u) of
        None \<Rightarrow> None
      | Some (c, s1) \<Rightarrow>
          let s2 = (if c then emit (Delay_scr_init Ui_text_check_cysync) s1 else s1);
              s3 = (if None \<noteq> inputs (btc_txn_context s2) then emit Free_inputs s2 else s2);
              s4 = (if None \<noteq> outputs (btc_txn_context s3) then emit Free_outputs s3 else s3)
          in Some (emit Free_context s4))"

subsection \<open>The fee, from the specification\<close>

text \<open>
  Modelled from the spec: \<^verbatim>\<open>btc_get_txn_fee\<close> (its file, \<^verbatim>\<open>btc_txn_helpers.c\<close>, is not
  among the sources). Section 4.6 of the specification: compute
  \<open>fee = sum(inputs.value) - sum(outputs.value)\<close>; if this underflows (overspend), abort.
  The sums run over the input and output records of the context.
\<close>

definition sum_inputs :: "btc_txn_context_t \<Rightarrow> nat" where
  "sum_inputs c = sum_list (map (\<lambda>i. unat (in_value i)) (case inputs c of None \<Rightarrow> [] | Some xs \<Rightarrow> xs))"

definition sum_outputs :: "btc_txn_context_t \<Rightarrow> nat" where
  "sum_outputs c = sum_list (map (\<lambda>out. unat (out_value out)) (case outputs c of None \<Rightarrow> [] | Some xs \<Rightarrow> xs))"

definition btc_get_txn_fee_spec :: "btc_txn_context_t \<Rightarrow> u64 option" where
  "btc_get_txn_fee_spec c =
     (if sum_inputs c < sum_outputs c then None
      else Some (word_of_nat (sum_inputs c - sum_outputs c)))"

subsection \<open>The prompts, as the specification lists them\<close>

text \<open>
  Section 4.6 of the specification: for every output where \<^verbatim>\<open>is_change\<close> is false,
  the address and then the amount are presented on a scrolling page; a change output
  is not shown. \<open>receiver_pages ex idx out\<close> are the pages of the output \<open>out\<close> at index
  \<open>idx\<close>, \<open>all_pages ex idx outs\<close> those of the outputs \<open>outs\<close>, the first of which has
  the index \<open>idx\<close>.
\<close>

definition receiver_pages :: "externs \<Rightarrow> nat \<Rightarrow> btc_sign_txn_output_t \<Rightarrow> event list" where
  "receiver_pages ex idx out =
     (if is_change out then []
      else [Core_scroll_page (UI_TEXT_BTC_RECEIVER (idx + 1))
              (Text (script_output_to_address ex (pb_bytes (out_script_pub_key out))
                       (pb_size (out_script_pub_key out)))),
            Core_scroll_page (UI_TEXT_BTC_RECEIVER (idx + 1))
              (Text (format_value ex (out_value out)))])"

fun all_pages :: "externs \<Rightarrow> nat \<Rightarrow> btc_sign_txn_output_t list \<Rightarrow> event list" where
  "all_pages ex idx [] = []"
| "all_pages ex idx (out # outs) = receiver_pages ex idx out @ all_pages ex (Suc idx) outs"

text \<open>
  The prompts about the fee \<open>fee\<close>: the warning when the fee is above the ceiling of
  the fee policy, then the page with the fee.
\<close>

definition fee_pages :: "externs \<Rightarrow> btc_txn_context_t \<Rightarrow> u64 \<Rightarrow> event list" where
  "fee_pages ex c fee =
     (if get_transaction_fee_threshold ex c < fee
      then [Core_confirmation Ui_text_warning_txn_fee_too_high] else []) @
     [Core_scroll_page UI_TEXT_BTC_FEE (Text (format_value ex fee))]"

text \<open>
  Prompts shown one after the other until the user declines one. \<open>accepted s\<close> is the
  number of prompts the user accepts before the first one they decline.
  \<open>presented ps s\<close> is the outcome for the prompts \<open>ps\<close>: when the user accepts them all
  the result is \<open>True\<close> and all are in the trace; otherwise the result is \<open>False\<close> and
  the trace ends with the prompt that was declined. \<open>present\<close> is the same, prompt by
  prompt.
\<close>

definition accepted :: "st \<Rightarrow> nat" where
  "accepted s = length (takeWhile (\<lambda>a. a) (user s))"

definition presented :: "event list \<Rightarrow> st \<Rightarrow> bool \<times> st" where
  "presented ps s =
     (if length ps \<le> accepted s
      then (True, s\<lparr>user := drop (length ps) (user s), trace := trace s @ ps\<rparr>)
      else (False, s\<lparr>user := drop (Suc (accepted s)) (user s),
                     trace := trace s @ take (Suc (accepted s)) ps\<rparr>))"

fun present :: "event list \<Rightarrow> st \<Rightarrow> bool \<times> st" where
  "present [] s = (True, s)"
| "present (p # ps) s =
     (case next_answer (emit p s) of (r, s1) \<Rightarrow> if r then present ps s1 else (False, s1))"

text \<open>
  Invariant 4 of the specification names the outputs that would lock funds: the script
  begins with the data-carrier opcode and the value is not zero. \<open>locks_funds\<close> is the
  test of line 380.
\<close>

definition locks_funds :: "btc_sign_txn_output_t \<Rightarrow> bool" where
  "locks_funds out = (OP_RETURN = pb_bytes (out_script_pub_key out) ! 0 \<and> 0 \<noteq> out_value out)"

text \<open>
  What the loop over the outputs does with the outputs \<open>outs\<close> it reads, one per round,
  when the flag \<^verbatim>\<open>zero_value_transaction\<close> is \<open>z\<close> at its start: its result, the
  number of rounds it runs, and the events. An output that locks funds ends the loop
  in its round with an error; with no such output the loop accepts them all, and an
  error follows when the flag is still set after the last one.
\<close>

definition output_events :: "bool \<Rightarrow> btc_sign_txn_output_t list \<Rightarrow> bool \<times> nat \<times> event list" where
  "output_events z outs =
     (let k = length (takeWhile (\<lambda>out. \<not> locks_funds out) outs) in
      if k < length outs
      then (False, Suc k,
            replicate k (Btc_send_result BTC_SIGN_TXN_RESPONSE_INPUT_ACCEPTED_TAG) @
            [Btc_send_error ERROR_COMMON_ERROR_CORRUPT_DATA_TAG ERROR_DATA_FLOW_INVALID_DATA])
      else if z \<and> list_all (\<lambda>out. out_value out = 0) outs
      then (False, length outs,
            replicate (length outs) (Btc_send_result BTC_SIGN_TXN_RESPONSE_INPUT_ACCEPTED_TAG) @
            [Btc_send_error ERROR_COMMON_ERROR_CORRUPT_DATA_TAG ERROR_DATA_FLOW_INVALID_DATA])
      else (True, length outs,
            replicate (length outs) (Btc_send_result BTC_SIGN_TXN_RESPONSE_INPUT_ACCEPTED_TAG)))"

text \<open>\<open>no_signature evs\<close>: no result in the trace \<open>evs\<close> carries a signature.\<close>

definition no_signature :: "event list \<Rightarrow> bool" where
  "no_signature evs = (Btc_send_result BTC_SIGN_TXN_RESPONSE_SIGNATURE_TAG \<notin> set evs)"

subsection \<open>Sample data\<close>

text \<open>
  Concrete values on which the theorems below are run. \<open>sample_verify\<close> stands in for
  the verifier of previous transactions: it accepts the three bytes 1, 2, 3 as a
  previous transaction, whose spent output holds 100000 units under the script
  \<open>0x76, 0xa9\<close>, and writes both into the record it is given; it rejects all else.
  In \<open>sample_externs\<close> an input record has 104 bytes, an output record 64, and the
  allocator provides up to 32768 bytes in a call.
\<close>

definition blank_script :: pb_bytes_array_t where
  "blank_script = \<lparr>pb_size = 0, pb_bytes = [0, 0, 0, 0]\<rparr>"

definition blank_input :: btc_txn_input_t where
  "blank_input =
     \<lparr>prev_txn_hash = replicate 32 0, prev_output_index = 0, in_value = 0, sequence = 0,
      script_pub_key = blank_script, change_index = 0, address_index = 0\<rparr>"

definition blank_output :: btc_sign_txn_output_t where
  "blank_output = \<lparr>out_value = 0, out_script_pub_key = blank_script, is_change = False\<rparr>"

definition sample_verify :: "u8 list \<Rightarrow> nat \<Rightarrow> btc_txn_input_t \<Rightarrow> bool \<times> btc_txn_input_t" where
  "sample_verify raw n slot =
     (if take n raw = [1, 2, 3]
      then (True, slot\<lparr>in_value := 100000,
                        script_pub_key := \<lparr>pb_size = 2, pb_bytes = [0x76, 0xa9, 0, 0]\<rparr>\<rparr>)
      else (False, slot))"

definition sample_externs :: externs where
  "sample_externs =
     \<lparr>g_app_name = ''Bitcoin'',
      btc_derivation_path_guard = (\<lambda>path n. n = 3),
      get_wallet_name_by_id = (\<lambda>w. if w = [7] then Some ''Savings'' else None),
      btc_verify_input = sample_verify,
      format_value = (\<lambda>v. if v = 90000 then ''0.0009 BTC'' else ''some BTC''),
      script_output_to_address = (\<lambda>b n. if take n b = [0x76, 0xa9] then ''1Receiver'' else ''1Other''),
      get_transaction_fee_threshold = (\<lambda>c. 2000),
      btc_get_txn_fee = btc_get_txn_fee_spec,
      sizeof_btc_txn_input_t = 104,
      sizeof_btc_sign_txn_output_t = 64,
      malloc = (\<lambda>s n. n \<le> 0x8000),
      uninit_input = (\<lambda>i. blank_input),
      uninit_output = (\<lambda>i. blank_output)\<rparr>"

definition blank_request :: btc_sign_txn_request_t where
  "blank_request =
     \<lparr>which_request = BTC_SIGN_TXN_REQUEST_OTHER 0,
      initiate_rq = \<lparr>wallet_id = [], derivation_path = [], derivation_path_count = 0\<rparr>,
      meta_rq = \<lparr>sighash = 0, input_count = 0, output_count = 0\<rparr>,
      input_rq = \<lparr>prev_txn = blank_script, rq_prev_txn_hash = replicate 32 0,
                  rq_prev_output_index = 0, rq_value = 0, rq_sequence = 0,
                  rq_script_pub_key = blank_script, rq_change_index = 0, rq_address_index = 0\<rparr>,
      output_rq = blank_output\<rparr>"

definition initiate_query :: btc_query_t where
  "initiate_query =
     \<lparr>sign_txn = blank_request
        \<lparr>which_request := BTC_SIGN_TXN_REQUEST_INITIATE_TAG,
         initiate_rq := \<lparr>wallet_id = [7], derivation_path = [44, 0, 0],
                          derivation_path_count = 3\<rparr>\<rparr>\<rparr>"

definition meta_query :: "u32 \<Rightarrow> u32 \<Rightarrow> u32 \<Rightarrow> btc_query_t" where
  "meta_query sh n_in n_out =
     \<lparr>sign_txn = blank_request
        \<lparr>which_request := BTC_SIGN_TXN_REQUEST_META_TAG,
         meta_rq := \<lparr>sighash = sh, input_count = n_in, output_count = n_out\<rparr>\<rparr>\<rparr>"

text \<open>
  An input sub-request under the discriminant \<open>tag\<close>: the raw previous transaction
  1, 2, 3 and the value \<open>v\<close> the host claims for the input.
\<close>

definition input_query :: "request_tag \<Rightarrow> u64 \<Rightarrow> btc_query_t" where
  "input_query tag v =
     \<lparr>sign_txn = blank_request
        \<lparr>which_request := tag,
         input_rq := (input_rq blank_request)
           \<lparr>prev_txn := \<lparr>pb_size = 3, pb_bytes = [1, 2, 3, 0]\<rparr>,
            rq_prev_txn_hash := replicate 32 5,
            rq_value := v,
            rq_script_pub_key := \<lparr>pb_size = 1, pb_bytes = [0x51, 0, 0, 0]\<rparr>\<rparr>\<rparr>\<rparr>"

text \<open>
  An output sub-request under the discriminant \<open>tag\<close>: the value \<open>v\<close>, a script of
  declared length \<open>n\<close> in the buffer \<open>b\<close>, and the change flag.
\<close>

definition output_query :: "request_tag \<Rightarrow> u64 \<Rightarrow> nat \<Rightarrow> u8 list \<Rightarrow> bool \<Rightarrow> btc_query_t" where
  "output_query tag v n b chg =
     \<lparr>sign_txn = blank_request
        \<lparr>which_request := tag,
         output_rq := \<lparr>out_value = v, out_script_pub_key = \<lparr>pb_size = n, pb_bytes = b\<rparr>,
                       is_change = chg\<rparr>\<rparr>\<rparr>"

text \<open>
  A state in the middle of the flow: the metadata accepted with \<open>n_in\<close> inputs and
  \<open>n_out\<close> outputs, the storage allocated, \<open>h\<close> and \<open>u\<close> still to come, an empty trace.
\<close>

definition after_meta ::
  "u32 \<Rightarrow> u32 \<Rightarrow> (bool \<times> btc_query_t) list \<Rightarrow> bool list \<Rightarrow> st" where
  "after_meta n_in n_out h u =
     \<lparr>query = meta_query 1 n_in n_out,
      btc_txn_context = zero_context
        \<lparr>metadata := \<lparr>sighash = 1, input_count = n_in, output_count = n_out\<rparr>,
         inputs := Some (replicate (unat n_in) blank_input),
         outputs := Some (replicate (unat n_out) blank_output)\<rparr>,
      host = h, user = u, trace = []\<rparr>"

text \<open>
  A state at the start of the verification by the user: the inputs \<open>ins\<close> and the
  outputs \<open>outs\<close> are in the context, the answers \<open>u\<close> are to come.
\<close>

definition verify_state ::
  "btc_txn_input_t list \<Rightarrow> btc_sign_txn_output_t list \<Rightarrow> bool list \<Rightarrow> st" where
  "verify_state ins outs u =
     \<lparr>query = meta_query 1 (of_nat (length ins)) (of_nat (length outs)),
      btc_txn_context = zero_context
        \<lparr>metadata := \<lparr>sighash = 1, input_count = of_nat (length ins),
                       output_count = of_nat (length outs)\<rparr>,
         inputs := Some ins, outputs := Some outs\<rparr>,
      host = [], user = u, trace = []\<rparr>"

definition input_of :: "u64 \<Rightarrow> btc_txn_input_t" where
  "input_of v = blank_input\<lparr>in_value := v\<rparr>"

definition receiver_of :: "u64 \<Rightarrow> btc_sign_txn_output_t" where
  "receiver_of v =
     \<lparr>out_value = v, out_script_pub_key = \<lparr>pb_size = 2, pb_bytes = [0x76, 0xa9, 0, 0]\<rparr>,
      is_change = False\<rparr>"

definition change_of :: "u64 \<Rightarrow> btc_sign_txn_output_t" where
  "change_of v =
     \<lparr>out_value = v, out_script_pub_key = \<lparr>pb_size = 1, pb_bytes = [0x51, 0, 0, 0]\<rparr>,
      is_change = True\<rparr>"

text \<open>The query \<open>q\<close> with another declared length of the script of its output.\<close>

definition with_script_size :: "nat \<Rightarrow> btc_query_t \<Rightarrow> btc_query_t" where
  "with_script_size n q =
     q\<lparr>sign_txn := (sign_txn q)
         \<lparr>output_rq := (output_rq (sign_txn q))
            \<lparr>out_script_pub_key :=
               (out_script_pub_key (output_rq (sign_txn q)))\<lparr>pb_size := n\<rparr>\<rparr>\<rparr>\<rparr>"

section \<open>Properties\<close>

subsection \<open>The trace\<close>

lemma trace_emit [simp]: "trace (emit e s) = trace s @ [e]"
  by (simp add: emit_def)

lemma fields_emit [simp]:
  "query (emit e s) = query s" "btc_txn_context (emit e s) = btc_txn_context s"
  "host (emit e s) = host s" "user (emit e s) = user s"
  by (simp_all add: emit_def)

subsection \<open>The metadata\<close>

text \<open>
  Once the metadata sub-request is received, metadata with another sighash than
  SIGHASH\_ALL (the value 1), with no input or with no output are rejected: the
  function sends a CORRUPT\_DATA / INVALID\_DATA error, returns \<^verbatim>\<open>false\<close>, and leaves
  the context as it was, with nothing allocated.
\<close>

lemma fetch_transaction_meta_rejects:
  assumes "host s = (True, q) # rest"
    and "which_request (sign_txn q) = BTC_SIGN_TXN_REQUEST_META_TAG"
    and "sighash (meta_rq (sign_txn q)) \<noteq> 1 \<or> input_count (meta_rq (sign_txn q)) = 0 \<or>
         output_count (meta_rq (sign_txn q)) = 0"
  shows "fetch_transaction_meta ex s =
     (False, s\<lparr>query := q, host := rest,
               trace := trace s @ [Btc_send_error ERROR_COMMON_ERROR_CORRUPT_DATA_TAG
                                     ERROR_DATA_FLOW_INVALID_DATA]\<rparr>)"
  using assms
  by (auto simp: fetch_transaction_meta_def btc_get_query_def check_which_request_def
      btc_send_error_def emit_def Let_def)

text \<open>
  Storage that \<^verbatim>\<open>malloc\<close> provides holds as many records as declared when the
  product of the size and the count fits \<^verbatim>\<open>size_t\<close>.
\<close>

lemma length_allocate:
  assumes "allocate ok elem_size (elem_size * n) content = Some xs"
    and "0 < unat elem_size"
    and "unat elem_size * unat n < 4294967296"
  shows "length xs = unat n"
proof -
  have "unat (elem_size * n) = unat elem_size * unat n"
    using assms(3) by (simp add: unat_mult_lem [THEN iffD1])
  then show ?thesis
    using assms(1,2) by (auto simp: allocate_def split: if_splits)
qed

lemma fetch_transaction_meta_storage:
  assumes "host s = (True, q) # rest"
    and "which_request (sign_txn q) = BTC_SIGN_TXN_REQUEST_META_TAG"
    and "sighash (meta_rq (sign_txn q)) = 1"
    and "input_count (meta_rq (sign_txn q)) \<noteq> 0"
    and "output_count (meta_rq (sign_txn q)) \<noteq> 0"
    and "fetch_transaction_meta ex s = (r, s')"
  shows "inputs (btc_txn_context s') = Some ins \<Longrightarrow>
           0 < unat (sizeof_btc_txn_input_t ex) \<Longrightarrow>
           unat (sizeof_btc_txn_input_t ex) * unat (input_count (meta_rq (sign_txn q))) < 2 ^ 32 \<Longrightarrow>
           length ins = unat (input_count (meta_rq (sign_txn q)))"
    and "outputs (btc_txn_context s') = Some outs \<Longrightarrow>
           0 < unat (sizeof_btc_sign_txn_output_t ex) \<Longrightarrow>
           unat (sizeof_btc_sign_txn_output_t ex) * unat (output_count (meta_rq (sign_txn q))) < 2 ^ 32 \<Longrightarrow>
           length outs = unat (output_count (meta_rq (sign_txn q)))"
  using assms
  by (auto simp: fetch_transaction_meta_def btc_get_query_def check_which_request_def
      send_response_def emit_def Let_def dest: length_allocate)

text \<open>
  C4: once the metadata sub-request is received, \<^verbatim>\<open>fetch_transaction_meta\<close> returns
  failure with a CORRUPT\_DATA / INVALID\_DATA error, and allocates nothing, whenever the
  sighash of the metadata is not SIGHASH\_ALL or \<^verbatim>\<open>input_count\<close> is zero or
  \<^verbatim>\<open>output_count\<close> is zero; otherwise it copies the metadata into the context,
  allocates storage for exactly as many inputs and outputs as the metadata declare,
  replies that the metadata are accepted and returns success. The code does otherwise
  for the allocation. For all metadata it accepts, the function copies them into the
  context, calls \<^verbatim>\<open>malloc\<close> twice, for the products of the sizes and the counts as
  \<^verbatim>\<open>size_t\<close> computes them, replies that the metadata are accepted and returns
  \<^verbatim>\<open>true\<close>, whatever the products are and whatever the two calls return.
\<close>

theorem fetch_transaction_meta_accepts:
  assumes "host s = (True, q) # rest"
    and "which_request (sign_txn q) = BTC_SIGN_TXN_REQUEST_META_TAG"
    and "sighash (meta_rq (sign_txn q)) = 1"
    and "input_count (meta_rq (sign_txn q)) \<noteq> 0"
    and "output_count (meta_rq (sign_txn q)) \<noteq> 0"
  shows "(\<lambda>(r, s'). (r, query s', host s', metadata (btc_txn_context s'), trace s'))
           (fetch_transaction_meta ex s) =
     (True, q, rest, meta_rq (sign_txn q),
      trace s @
      [Malloc_inputs (unat (sizeof_btc_txn_input_t ex * input_count (meta_rq (sign_txn q)))),
       Malloc_outputs
         (unat (sizeof_btc_sign_txn_output_t ex * output_count (meta_rq (sign_txn q)))),
       Btc_send_result BTC_SIGN_TXN_RESPONSE_META_ACCEPTED_TAG])"
  using assms
  by (auto simp: fetch_transaction_meta_def btc_get_query_def check_which_request_def
      send_response_def emit_def Let_def)

text \<open>
  With 41297763 inputs of 104 bytes declared, the product wraps around to 56: the
  function asks for 56 bytes, which hold no record, replies that the metadata are
  accepted and returns \<^verbatim>\<open>true\<close>. With 4294967295 inputs declared the allocator has
  no storage for the 4294967192 bytes asked for: the pointer is \<^verbatim>\<open>NULL\<close>, and the
  function replies and returns the same.
\<close>

theorem fetch_transaction_meta_accepts_witness:
  "(\<lambda>(r, s). (r, trace s))
     (fetch_transaction_meta sample_externs
        (start initiate_query [(True, meta_query 1 41297763 1)] [])) =
   (True,
    [Malloc_context, Malloc_inputs 56, Malloc_outputs 64,
     Btc_send_result BTC_SIGN_TXN_RESPONSE_META_ACCEPTED_TAG]) \<and>
   map_option length (inputs (btc_txn_context (snd
     (fetch_transaction_meta sample_externs
        (start initiate_query [(True, meta_query 1 41297763 1)] []))))) = Some 0 \<and>
   (\<lambda>(r, s). (r, trace s))
     (fetch_transaction_meta sample_externs
        (start initiate_query [(True, meta_query 1 4294967295 1)] [])) =
   (True,
    [Malloc_context, Malloc_inputs 4294967192, Malloc_outputs 64,
     Btc_send_result BTC_SIGN_TXN_RESPONSE_META_ACCEPTED_TAG]) \<and>
   inputs (btc_txn_context (snd
     (fetch_transaction_meta sample_externs
        (start initiate_query [(True, meta_query 1 4294967295 1)] [])))) = None"
proof -
  let ?q1 = "meta_query 1 41297763 1"
  let ?q2 = "meta_query 1 4294967295 1"
  have a1: "host (start initiate_query [(True, ?q1)] []) = (True, ?q1) # []"
    and b1: "host (start initiate_query [(True, ?q2)] []) = (True, ?q2) # []"
    by (simp_all add: start_def)
  have a2: "which_request (sign_txn ?q1) = BTC_SIGN_TXN_REQUEST_META_TAG"
    and b2: "which_request (sign_txn ?q2) = BTC_SIGN_TXN_REQUEST_META_TAG"
    by (simp_all add: meta_query_def)
  have a3: "sighash (meta_rq (sign_txn ?q1)) = 1"
    and b3: "sighash (meta_rq (sign_txn ?q2)) = 1"
    by (simp_all add: meta_query_def)
  have a4: "input_count (meta_rq (sign_txn ?q1)) \<noteq> 0"
    and b4: "input_count (meta_rq (sign_txn ?q2)) \<noteq> 0"
    by (simp_all add: meta_query_def)
  have a5: "output_count (meta_rq (sign_txn ?q1)) \<noteq> 0"
    and b5: "output_count (meta_rq (sign_txn ?q2)) \<noteq> 0"
    by (simp_all add: meta_query_def)
  have e1: "(\<lambda>(r, s). (r, trace s))
     (fetch_transaction_meta sample_externs (start initiate_query [(True, ?q1)] [])) =
   (True,
    [Malloc_context, Malloc_inputs 56, Malloc_outputs 64,
     Btc_send_result BTC_SIGN_TXN_RESPONSE_META_ACCEPTED_TAG])"
    using fetch_transaction_meta_accepts [OF a1 a2 a3 a4 a5, of sample_externs]
    by (simp add: split_def start_def meta_query_def sample_externs_def)
  have e2: "(\<lambda>(r, s). (r, trace s))
     (fetch_transaction_meta sample_externs (start initiate_query [(True, ?q2)] [])) =
   (True,
    [Malloc_context, Malloc_inputs 4294967192, Malloc_outputs 64,
     Btc_send_result BTC_SIGN_TXN_RESPONSE_META_ACCEPTED_TAG])"
    using fetch_transaction_meta_accepts [OF b1 b2 b3 b4 b5, of sample_externs]
    by (simp add: split_def start_def meta_query_def sample_externs_def)
  have p1: "map_option length (inputs (btc_txn_context (snd
     (fetch_transaction_meta sample_externs (start initiate_query [(True, ?q1)] []))))) = Some 0"
    by (simp add: fetch_transaction_meta_def btc_get_query_def check_which_request_def
        send_response_def emit_def allocate_def start_def meta_query_def sample_externs_def
        zero_context_def blank_request_def Let_def)
  have p2: "inputs (btc_txn_context (snd
     (fetch_transaction_meta sample_externs (start initiate_query [(True, ?q2)] [])))) = None"
    by (simp add: fetch_transaction_meta_def btc_get_query_def check_which_request_def
        send_response_def emit_def allocate_def start_def meta_query_def sample_externs_def
        zero_context_def blank_request_def Let_def)
  from e1 p1 e2 p2 show ?thesis by (intro conjI)
qed

subsection \<open>The order of the phases\<close>

text \<open>
  The first two steps of the condition of line 464, for every state: after a first
  phase that succeeds no other phase is called; after a first phase that fails,
  \<^verbatim>\<open>fetch_transaction_meta\<close> is called, and its success ends the chain.
\<close>

lemma all_phases_failed_after_success:
  "handle_initiate_query ex (emit (Call Handle_initiate_query) s) = (True, s1) \<Longrightarrow>
   all_phases_failed ex s = Some (False, emit (Returned Handle_initiate_query True) s1)"
  by (simp add: all_phases_failed_def call_def)

lemma all_phases_failed_after_failure:
  "handle_initiate_query ex (emit (Call Handle_initiate_query) s) = (False, s1) \<Longrightarrow>
   fetch_transaction_meta ex
     (emit (Call Fetch_transaction_meta) (emit (Returned Handle_initiate_query False) s1)) =
     (True, s2) \<Longrightarrow>
   all_phases_failed ex s = Some (False, emit (Returned Fetch_transaction_meta True) s2)"
  by (simp add: all_phases_failed_def call_def)

text \<open>
  C1: in \<^verbatim>\<open>btc_sign_transaction\<close> the phases run in order and the failure of a phase
  aborts the flow: no later phase function is invoked after an earlier one returned
  failure; if the user declines the first confirmation, \<^verbatim>\<open>fetch_transaction_meta\<close>
  is never invoked and no storage for inputs and outputs is allocated. The code does
  otherwise. The condition of line 464 negates every call, so a phase is invoked exactly
  when every phase before it returned \<^verbatim>\<open>false\<close>. With the confirmation declined the flow
  goes on to \<^verbatim>\<open>fetch_transaction_meta\<close>, which accepts the metadata of the host and
  allocates the storage; with the confirmation accepted the flow ends after its first
  phase.
\<close>

theorem btc_sign_transaction_goes_on_after_failure:
  "map_option trace
     (btc_sign_transaction sample_externs initiate_query [(True, meta_query 1 1 1)] [False]) =
   Some [Malloc_context,
         Call Handle_initiate_query,
         Core_confirmation (UI_TEXT_BTC_SEND_PROMPT ''Bitcoin'' ''Savings''),
         Returned Handle_initiate_query False,
         Call Fetch_transaction_meta,
         Malloc_inputs 104, Malloc_outputs 64,
         Btc_send_result BTC_SIGN_TXN_RESPONSE_META_ACCEPTED_TAG,
         Returned Fetch_transaction_meta True,
         Free_inputs, Free_outputs, Free_context] \<and>
   map_option trace
     (btc_sign_transaction sample_externs initiate_query [(True, meta_query 1 1 1)] [True]) =
   Some [Malloc_context,
         Call Handle_initiate_query,
         Core_confirmation (UI_TEXT_BTC_SEND_PROMPT ''Bitcoin'' ''Savings''),
         Core_status_set_flow_status,
         Btc_send_result BTC_SIGN_TXN_RESPONSE_CONFIRMATION_TAG,
         Returned Handle_initiate_query True,
         Free_context]"
  by code_simp

subsection \<open>The inputs\<close>

text \<open>
  When \<^verbatim>\<open>btc_get_query\<close> has received a query, the condition that starts a round is
  false whatever the discriminant of the query is: \<^verbatim>\<open>check_which_request\<close> is not
  called.
\<close>

lemma no_query_and_no_request_received:
  "host s = (True, q) # rest \<Longrightarrow>
   no_query_and_no_request tag s = (False, s\<lparr>query := q, host := rest\<rparr>)"
  by (simp add: no_query_and_no_request_def btc_get_query_def)

text \<open>
  The other three phases do check the discriminant: a query that is not theirs is
  answered with a CORRUPT\_DATA / INVALID\_REQUEST error, and the phase returns
  \<^verbatim>\<open>false\<close>.
\<close>

lemma handle_initiate_query_checks_request:
  "which_request (sign_txn (query s)) \<noteq> BTC_SIGN_TXN_REQUEST_INITIATE_TAG \<Longrightarrow>
   handle_initiate_query ex s =
     (False, btc_send_error ERROR_COMMON_ERROR_CORRUPT_DATA_TAG ERROR_DATA_FLOW_INVALID_REQUEST s)"
  by (auto simp: handle_initiate_query_def check_which_request_def)

lemma fetch_transaction_meta_checks_request:
  "host s = (True, q) # rest \<Longrightarrow>
   which_request (sign_txn q) \<noteq> BTC_SIGN_TXN_REQUEST_META_TAG \<Longrightarrow>
   fetch_transaction_meta ex s =
     (False, btc_send_error ERROR_COMMON_ERROR_CORRUPT_DATA_TAG ERROR_DATA_FLOW_INVALID_REQUEST
               (s\<lparr>query := q, host := rest\<rparr>))"
  by (auto simp: fetch_transaction_meta_def btc_get_query_def check_which_request_def)

lemma sign_input_utxo_checks_request:
  "host s = (True, q) # rest \<Longrightarrow>
   which_request (sign_txn q) \<noteq> BTC_SIGN_TXN_REQUEST_SIGNATURE_TAG \<Longrightarrow>
   sign_input_utxo s =
     (False, btc_send_error ERROR_COMMON_ERROR_CORRUPT_DATA_TAG ERROR_DATA_FLOW_INVALID_REQUEST
               (s\<lparr>query := q, host := rest\<rparr>))"
  by (auto simp: sign_input_utxo_def btc_get_query_def check_which_request_def)

text \<open>
  C3: in every round of every phase, a query whose discriminant is not the one of the
  phase makes the flow send a CORRUPT\_DATA / INVALID\_REQUEST error and abort the phase;
  the payload of the round is not processed; so in each iteration of the loops over
  the inputs and the outputs. The code does otherwise in the two loops. Here
  \<^verbatim>\<open>fetch_valid_input\<close> receives a query whose discriminant is that of an output: it
  sends no error, verifies and stores what it reads as the input sub-request, replies
  that the input is accepted and returns \<^verbatim>\<open>true\<close>.
\<close>

theorem fetch_valid_input_accepts_other_request:
  "which_request (sign_txn (input_query BTC_SIGN_TXN_REQUEST_OUTPUT_TAG 1)) \<noteq>
     BTC_SIGN_TXN_REQUEST_INPUT_TAG \<and>
   map_option (\<lambda>(r, s). (r, trace s, map_option (map in_value) (inputs (btc_txn_context s))))
     (fetch_valid_input sample_externs
        (after_meta 1 1 [(True, input_query BTC_SIGN_TXN_REQUEST_OUTPUT_TAG 1)] [])) =
   Some (True, [Btc_send_result BTC_SIGN_TXN_RESPONSE_INPUT_ACCEPTED_TAG], Some [1])"
  by code_simp

text \<open>
  What a round that succeeds leaves in the record of the context: the clone of the
  input sub-request, with the value and the length of the script the host claims,
  whatever \<^verbatim>\<open>btc_verify_input\<close> had written there.
\<close>

lemma in_value_clone_input: "in_value (clone_input rq slot) = rq_value rq"
  by (simp add: clone_input_def Let_def)

lemma script_clone_input:
  "script_pub_key (clone_input rq slot) =
     \<lparr>pb_size = pb_size (rq_script_pub_key rq),
      pb_bytes = memcpy (pb_bytes (script_pub_key slot)) (pb_bytes (rq_script_pub_key rq))
                   (pb_size (rq_script_pub_key rq))\<rparr>"
  by (simp add: clone_input_def Let_def)

lemma fetch_valid_input_round_stores_claim:
  assumes "fetch_valid_input_round ex idx s = Some (True, s')"
  shows "map_option in_value (element (inputs (btc_txn_context s')) idx) =
           Some (rq_value (input_rq (sign_txn (query s')))) \<and>
         map_option (\<lambda>i. pb_size (script_pub_key i)) (element (inputs (btc_txn_context s')) idx) =
           Some (pb_size (rq_script_pub_key (input_rq (sign_txn (query s')))))"
  using assms
  by (auto simp: fetch_valid_input_round_def no_query_and_no_request_def btc_get_query_def
        check_which_request_def btc_send_error_def send_response_def emit_def store_input_def
        element_def Let_def in_value_clone_input script_clone_input
      split: prod.splits if_splits option.splits list.splits)

text \<open>
  C2: after a round of \<^verbatim>\<open>fetch_valid_input\<close> that succeeds, the value and the script
  in the record of the context are those the verifier extracted from the raw previous
  transaction, not those the host claims in the input sub-request. The code does
  otherwise: it calls the verifier on the record before it has filled it, and then
  overwrites the record with the claim. Here the verifier accepts the raw previous
  transaction and extracts the value 100000 and a script of two bytes; the host claims
  the value 1 and a script of one byte; the record ends with the value 1 and a script
  of one byte.
\<close>

theorem fetch_valid_input_stores_the_claim:
  "sample_verify [1, 2, 3, 0] 3 blank_input =
     (True, blank_input\<lparr>in_value := 100000,
                         script_pub_key := \<lparr>pb_size = 2, pb_bytes = [0x76, 0xa9, 0, 0]\<rparr>\<rparr>) \<and>
   map_option (\<lambda>(r, s). (r, trace s,
        map_option (map (\<lambda>i. (in_value i, script_pub_key i))) (inputs (btc_txn_context s))))
     (fetch_valid_input sample_externs
        (after_meta 1 1 [(True, input_query BTC_SIGN_TXN_REQUEST_INPUT_TAG 1)] [])) =
   Some (True, [Btc_send_result BTC_SIGN_TXN_RESPONSE_INPUT_ACCEPTED_TAG],
         Some [(1, \<lparr>pb_size = 1, pb_bytes = [0x51, 0xa9, 0, 0]\<rparr>)])"
  by code_simp

subsection \<open>The outputs\<close>

text \<open>
  What the loop of \<^verbatim>\<open>fetch_valid_output\<close> decides when \<^verbatim>\<open>btc_get_query\<close> receives
  a query in every round: it returns \<^verbatim>\<open>true\<close> exactly when none of the outputs it
  reads from the queries locks funds and one of them has a value other than zero. The
  discriminants of the queries have no part in it.
\<close>

lemma fetch_valid_output_from_received:
  assumes "host s = map (Pair True) qs @ rest"
    and "outputs (btc_txn_context s) = Some slots"
    and "unat (output_count (metadata (btc_txn_context s))) = idx + length qs"
    and "length slots = idx + length qs"
  shows "map_option fst (fetch_valid_output_from idx z s) =
     Some (\<not> list_ex locks_funds (map (\<lambda>q. output_rq (sign_txn q)) qs) \<and>
           \<not> (z \<and> list_all (\<lambda>out. out_value out = 0) (map (\<lambda>q. output_rq (sign_txn q)) qs)))"
  using assms
proof (induction qs arbitrary: idx z s slots)
  case Nil
  then show ?case by (simp add: fetch_valid_output_from.simps [of idx z s])
next
  case (Cons q qs)
  let ?out = "output_rq (sign_txn q)"
  let ?s1 = "s\<lparr>query := q, host := map (Pair True) qs @ rest\<rparr>"
  have lt: "idx < unat (output_count (metadata (btc_txn_context s)))"
    using Cons.prems by simp
  have g: "no_query_and_no_request BTC_SIGN_TXN_REQUEST_OUTPUT_TAG s = (False, ?s1)"
    using Cons.prems(1) by (simp add: no_query_and_no_request_def btc_get_query_def)
  have el: "element (outputs (btc_txn_context ?s1)) idx = Some (slots ! idx)"
    using Cons.prems by (simp add: element_def)
  show ?case
  proof (cases "locks_funds ?out")
    case True
    then show ?thesis
      using lt g el
      by (simp add: fetch_valid_output_from.simps [of idx z s] fetch_valid_output_round_def
          locks_funds_def Let_def)
  next
    case False
    let ?z = "if 0 \<noteq> out_value ?out then False else z"
    let ?s2 = "send_response BTC_SIGN_TXN_RESPONSE_INPUT_ACCEPTED_TAG (store_output idx ?out ?s1)"
    have r: "fetch_valid_output_round idx z s = Some (True, ?z, ?s2)"
      using False g el by (simp add: fetch_valid_output_round_def locks_funds_def Let_def)
    have "map_option fst (fetch_valid_output_from (Suc idx) ?z ?s2) =
      Some (\<not> list_ex locks_funds (map (\<lambda>q. output_rq (sign_txn q)) qs) \<and>
           \<not> (?z \<and> list_all (\<lambda>out. out_value out = 0) (map (\<lambda>q. output_rq (sign_txn q)) qs)))"
      using Cons.prems
      by (intro Cons.IH [where slots = "slots[idx := ?out]"])
         (simp_all add: send_response_def store_output_def)
    then show ?thesis
      using lt r False
      by (auto simp: fetch_valid_output_from.simps [of idx z s])
  qed
qed

lemma fetch_valid_output_received:
  assumes "host s = map (Pair True) qs @ rest"
    and "outputs (btc_txn_context s) = Some slots"
    and "unat (output_count (metadata (btc_txn_context s))) = length qs"
    and "length slots = length qs"
  shows "map_option fst (fetch_valid_output s) =
     Some (\<not> list_ex locks_funds (map (\<lambda>q. output_rq (sign_txn q)) qs) \<and>
           list_ex (\<lambda>out. out_value out \<noteq> 0) (map (\<lambda>q. output_rq (sign_txn q)) qs))"
  using fetch_valid_output_from_received [of s qs rest slots 0 True] assms
  by (simp add: fetch_valid_output_def list_ex_iff list_all_iff)

text \<open>
  The same loop in full: its result, the queries it leaves to the host and its trace
  are those of \<open>output_events\<close>. A rejection for an output that locks funds is
  immediate: the queries of the later rounds are still with the host.
\<close>

lemma fetch_valid_output_from_events:
  assumes "host s = map (Pair True) qs @ rest"
    and "outputs (btc_txn_context s) = Some slots"
    and "unat (output_count (metadata (btc_txn_context s))) = idx + length qs"
    and "length slots = idx + length qs"
  shows "map_option (\<lambda>(r, s'). (r, host s', trace s'))
           (fetch_valid_output_from idx z s) =
         (case output_events z (map (\<lambda>q. output_rq (sign_txn q)) qs) of
            (r, n, evs) \<Rightarrow> Some (r, drop n (host s), trace s @ evs))"
  using assms
proof (induction qs arbitrary: idx z s slots)
  case Nil
  then show ?case
    by (simp add: fetch_valid_output_from.simps [of idx z s] output_events_def btc_send_error_def)
next
  case (Cons q qs)
  let ?out = "output_rq (sign_txn q)"
  let ?outs = "map (\<lambda>q. output_rq (sign_txn q)) qs"
  let ?s1 = "s\<lparr>query := q, host := map (Pair True) qs @ rest\<rparr>"
  have lt: "idx < unat (output_count (metadata (btc_txn_context s)))"
    using Cons.prems by simp
  have g: "no_query_and_no_request BTC_SIGN_TXN_REQUEST_OUTPUT_TAG s = (False, ?s1)"
    using Cons.prems(1) by (simp add: no_query_and_no_request_def btc_get_query_def)
  have el: "element (outputs (btc_txn_context ?s1)) idx = Some (slots ! idx)"
    using Cons.prems by (simp add: element_def)
  show ?case
  proof (cases "locks_funds ?out")
    case True
    then show ?thesis
      using lt g el Cons.prems(1)
      by (simp add: fetch_valid_output_from.simps [of idx z s] fetch_valid_output_round_def
          locks_funds_def Let_def output_events_def btc_send_error_def store_output_def)
  next
    case False
    let ?z = "if 0 \<noteq> out_value ?out then False else z"
    let ?s2 = "send_response BTC_SIGN_TXN_RESPONSE_INPUT_ACCEPTED_TAG (store_output idx ?out ?s1)"
    have r: "fetch_valid_output_round idx z s = Some (True, ?z, ?s2)"
      using False g el by (simp add: fetch_valid_output_round_def locks_funds_def Let_def)
    have IH: "map_option (\<lambda>(r, s'). (r, host s', trace s'))
           (fetch_valid_output_from (Suc idx) ?z ?s2) =
         (case output_events ?z ?outs of
            (r, n, evs) \<Rightarrow> Some (r, drop n (host ?s2), trace ?s2 @ evs))"
      using Cons.prems
      by (intro Cons.IH [where slots = "slots[idx := ?out]"])
         (simp_all add: send_response_def store_output_def)
    have h2: "host ?s2 = drop 1 (host s)"
      using Cons.prems(1) by (simp add: send_response_def store_output_def)
    have t2: "trace ?s2 = trace s @ [Btc_send_result BTC_SIGN_TXN_RESPONSE_INPUT_ACCEPTED_TAG]"
      by (simp add: send_response_def store_output_def)
    have f: "fetch_valid_output_from idx z s = fetch_valid_output_from (Suc idx) ?z ?s2"
      using lt r by (simp add: fetch_valid_output_from.simps [of idx z s])
    have e: "output_events z (?out # ?outs) =
        (case output_events ?z ?outs of (r, n, evs) \<Rightarrow>
           (r, Suc n, Btc_send_result BTC_SIGN_TXN_RESPONSE_INPUT_ACCEPTED_TAG # evs))"
      using False by (auto simp: output_events_def Let_def)
    show ?thesis
      unfolding f list.map e using IH
      by (simp add: h2 t2 split: prod.splits)
  qed
qed

text \<open>
  C5: \<^verbatim>\<open>fetch_valid_output\<close> returns success iff every round delivered a well-formed
  output sub-request, no output received begins with the data-carrier opcode while
  its value is not zero, and some output received has a value that is not zero; every
  rejection sends a CORRUPT\_DATA / INVALID\_DATA error. The code does otherwise for the
  first condition. Here the only round delivers a query whose discriminant is that of
  an input: the function stores what it reads as the output sub-request, replies that
  it is accepted and returns \<^verbatim>\<open>true\<close>.
\<close>

theorem fetch_valid_output_accepts_other_request:
  "which_request
     (sign_txn (output_query BTC_SIGN_TXN_REQUEST_INPUT_TAG 1 2 [0x76, 0xa9, 0, 0] False)) \<noteq>
     BTC_SIGN_TXN_REQUEST_OUTPUT_TAG \<and>
   map_option (\<lambda>(r, s). (r, trace s, map_option (map out_value) (outputs (btc_txn_context s))))
     (fetch_valid_output
        (after_meta 1 1
           [(True, output_query BTC_SIGN_TXN_REQUEST_INPUT_TAG 1 2 [0x76, 0xa9, 0, 0] False)] [])) =
   Some (True, [Btc_send_result BTC_SIGN_TXN_RESPONSE_INPUT_ACCEPTED_TAG], Some [1])"
  by code_simp

text \<open>
  C10: in every round \<^verbatim>\<open>fetch_valid_output\<close> decides the data-carrier check on the
  first byte of the buffer of the script, without a look at the declared length of the
  script; for an output whose declared length is zero the check still reads byte 0 of
  the buffer. The result of a round, the flag it passes on and its events are the same
  whatever length the script declares;
  and of two outputs of the value 500 and the declared length 0, the one whose buffer
  starts with the opcode is rejected, the other one is accepted.
\<close>

theorem op_return_check_ignores_script_size:
  "map_option (\<lambda>(r, zero, s'). (r, zero, trace s'))
     (fetch_valid_output_round idx z (s\<lparr>host := (True, with_script_size n q) # rest\<rparr>)) =
   map_option (\<lambda>(r, zero, s'). (r, zero, trace s'))
     (fetch_valid_output_round idx z (s\<lparr>host := (True, q) # rest\<rparr>)) \<and>
   map_option (\<lambda>(r, s'). (r, trace s'))
     (fetch_valid_output (after_meta 1 1
        [(True, output_query BTC_SIGN_TXN_REQUEST_OUTPUT_TAG 500 0 [0x6a, 0, 0, 0] False)] [])) =
     Some (False, [Btc_send_error ERROR_COMMON_ERROR_CORRUPT_DATA_TAG ERROR_DATA_FLOW_INVALID_DATA]) \<and>
   map_option (\<lambda>(r, s'). (r, trace s'))
     (fetch_valid_output (after_meta 1 1
        [(True, output_query BTC_SIGN_TXN_REQUEST_OUTPUT_TAG 500 0 [0x51, 0, 0, 0] False)] [])) =
     Some (True, [Btc_send_result BTC_SIGN_TXN_RESPONSE_INPUT_ACCEPTED_TAG])"
proof (intro conjI)
  show "map_option (\<lambda>(r, zero, s'). (r, zero, trace s'))
     (fetch_valid_output_round idx z (s\<lparr>host := (True, with_script_size n q) # rest\<rparr>)) =
   map_option (\<lambda>(r, zero, s'). (r, zero, trace s'))
     (fetch_valid_output_round idx z (s\<lparr>host := (True, q) # rest\<rparr>))"
    by (simp add: fetch_valid_output_round_def no_query_and_no_request_def btc_get_query_def
        with_script_size_def element_def store_output_def btc_send_error_def send_response_def
        Let_def split: option.splits)
qed (code_simp+)

subsection \<open>The verification by the user\<close>

text \<open>
  Presenting prompts one by one has the outcome \<open>presented\<close> describes, and leaves
  the context as it is.
\<close>

lemma present_presented: "present ps s = presented ps s"
proof (induction ps arbitrary: s)
  case Nil
  show ?case by (simp add: presented_def)
next
  case (Cons p ps)
  show ?case
  proof (cases "user s")
    case Nil
    then show ?thesis
      by (cases s) (simp add: presented_def accepted_def next_answer_def emit_def)
  next
    case (Cons a rest)
    show ?thesis
    proof (cases a)
      case False
      with Cons show ?thesis
        by (cases s) (simp add: presented_def accepted_def next_answer_def emit_def)
    next
      case True
      with Cons have "present (p # ps) s = presented ps ((emit p s)\<lparr>user := rest\<rparr>)"
        by (simp add: next_answer_def Cons.IH)
      also have "\<dots> = presented (p # ps) s"
        using Cons True
        by (cases s) (simp add: presented_def accepted_def emit_def)
      finally show ?thesis .
    qed
  qed
qed

lemma present_append:
  "present (ps @ qs) s =
     (case present ps s of (r, s1) \<Rightarrow> if r then present qs s1 else (False, s1))"
  by (induction ps arbitrary: s) (auto split: prod.splits)

lemma context_present: "btc_txn_context (snd (present ps s)) = btc_txn_context s"
  by (induction ps arbitrary: s) (auto simp: next_answer_def split: prod.splits list.splits)

text \<open>
  The loop of \<^verbatim>\<open>get_user_verification\<close>, started at \<open>idx\<close>, presents the pages of the
  outputs from \<open>idx\<close> on. The storage of the outputs has to hold as many records as
  the metadata declare, as it does once \<^verbatim>\<open>fetch_transaction_meta\<close> has allocated it.
\<close>

lemma get_user_verification_from_present:
  assumes "outputs (btc_txn_context s) = Some outs"
    and "unat (output_count (metadata (btc_txn_context s))) = length outs"
    and "idx \<le> length outs"
  shows "get_user_verification_from ex idx s = Some (present (all_pages ex idx (drop idx outs)) s)"
  using assms
proof (induction "length outs - idx" arbitrary: idx s)
  case 0
  then show ?case by (simp add: get_user_verification_from.simps)
next
  case (Suc k)
  then have lt: "idx < length outs" by simp
  then have d: "drop idx outs = outs ! idx # drop (Suc idx) outs"
    by (simp add: Cons_nth_drop_Suc)
  have el: "element (outputs (btc_txn_context s)) idx = Some (outs ! idx)"
    using Suc.prems lt by (simp add: element_def)
  have k: "k = length outs - Suc idx" using Suc.hyps(2) by simp
  have IH: "get_user_verification_from ex (Suc idx) s' =
      Some (present (all_pages ex (Suc idx) (drop (Suc idx) outs)) s')"
    if "btc_txn_context s' = btc_txn_context s" for s'
    using Suc.hyps(1) [OF k, of s'] Suc.prems lt that by simp
  show ?case
  proof (cases "is_change (outs ! idx)")
    case True
    then show ?thesis
      using lt Suc.prems el IH [of s]
      by (simp add: get_user_verification_from.simps [of ex idx s]
          get_user_verification_round_def d receiver_pages_def)
  next
    case False
    then show ?thesis
      using lt Suc.prems el
      apply (simp add: get_user_verification_from.simps [of ex idx s]
          get_user_verification_round_def d receiver_pages_def core_scroll_page_def Let_def
          split: prod.splits)
      apply (auto simp: next_answer_def IH split: list.splits)
      done
  qed
qed

lemma verify_fee_present:
  "btc_get_txn_fee ex (btc_txn_context s) = Some fee \<Longrightarrow>
   verify_fee ex s = present (fee_pages ex (btc_txn_context s) fee) s"
  by (auto simp: verify_fee_def fee_pages_def core_confirmation_def core_scroll_page_def Let_def
      split: prod.splits)

lemma get_user_verification_present:
  assumes "outputs (btc_txn_context s) = Some outs"
    and "unat (output_count (metadata (btc_txn_context s))) = length outs"
  shows "get_user_verification ex s =
     (case present (all_pages ex 0 outs) s of (r, s1) \<Rightarrow>
        if r then Some (verify_fee ex s1) else Some (False, s1))"
  using get_user_verification_from_present [OF assms, of 0 ex]
  by (simp add: get_user_verification_def split: prod.splits)

text \<open>
  C8: in \<^verbatim>\<open>get_user_verification\<close>, for every output whose \<^verbatim>\<open>is_change\<close> flag is
  false the script is formatted into an address and the value into an amount, and both
  are presented with \<^verbatim>\<open>core_scroll_page\<close>; any rejection returns failure; for an
  output whose flag is true nothing is presented. The function presents the pages
  \<open>all_pages ex 0 outs\<close> in their order, up to the first one the user declines: with a
  page declined it returns \<^verbatim>\<open>false\<close>, with all of them accepted it goes on to the
  fee.
\<close>

theorem get_user_verification_shows_receivers:
  assumes "outputs (btc_txn_context s) = Some outs"
    and "unat (output_count (metadata (btc_txn_context s))) = length outs"
  shows "get_user_verification ex s =
     (case presented (all_pages ex 0 outs) s of (r, s1) \<Rightarrow>
        if r then Some (verify_fee ex s1) else Some (False, s1))"
  using get_user_verification_present [OF assms] by (simp add: present_presented)

text \<open>
  Three outputs, the second one a change output; the user accepts both pages of the
  first output and declines the address of the third.
\<close>

theorem get_user_verification_shows_receivers_witness:
  "map_option (\<lambda>(r, s). (r, trace s))
     (get_user_verification sample_externs
        (verify_state [input_of 200000] [receiver_of 90000, change_of 9000, receiver_of 70000]
           [True, True, False])) =
   Some (False,
     [Core_scroll_page (UI_TEXT_BTC_RECEIVER 1) (Text ''1Receiver''),
      Core_scroll_page (UI_TEXT_BTC_RECEIVER 1) (Text ''0.0009 BTC''),
      Core_scroll_page (UI_TEXT_BTC_RECEIVER 3) (Text ''1Receiver'')])"
proof -
  let ?outs = "[receiver_of 90000, change_of 9000, receiver_of 70000]"
  let ?s = "verify_state [input_of 200000] ?outs [True, True, False]"
  have h1: "outputs (btc_txn_context ?s) = Some ?outs"
    by (simp add: verify_state_def)
  have h2: "unat (output_count (metadata (btc_txn_context ?s))) = length ?outs"
    by (simp add: verify_state_def)
  have e: "map_option (\<lambda>(r, s). (r, trace s))
     (case presented (all_pages sample_externs 0 ?outs) ?s of (r, s1) \<Rightarrow>
        if r then Some (verify_fee sample_externs s1) else Some (False, s1)) =
   Some (False,
     [Core_scroll_page (UI_TEXT_BTC_RECEIVER 1) (Text ''1Receiver''),
      Core_scroll_page (UI_TEXT_BTC_RECEIVER 1) (Text ''0.0009 BTC''),
      Core_scroll_page (UI_TEXT_BTC_RECEIVER 3) (Text ''1Receiver'')])"
    by (simp add: presented_def accepted_def receiver_pages_def verify_state_def
        receiver_of_def change_of_def sample_externs_def)
  show ?thesis
    unfolding get_user_verification_shows_receivers [OF h1 h2] by (rule e)
qed

text \<open>
  C7: in \<^verbatim>\<open>get_user_verification\<close>, if the computed fee exceeds the ceiling of the
  fee policy, the warning about the high fee is presented before the final confirmation
  of the fee; the final confirmation is presented whether or not the fee exceeded the
  ceiling; declining either makes the function return failure. With the fee computed
  as \<open>fee\<close>, the function presents the pages of the receivers and then \<open>fee_pages\<close>, in
  this order, up to the first prompt the user declines, and returns \<^verbatim>\<open>true\<close> only
  when the user accepted them all.
\<close>

theorem get_user_verification_fee_prompts:
  assumes "outputs (btc_txn_context s) = Some outs"
    and "unat (output_count (metadata (btc_txn_context s))) = length outs"
    and "btc_get_txn_fee ex (btc_txn_context s) = Some fee"
  shows "get_user_verification ex s =
     Some (presented (all_pages ex 0 outs @ fee_pages ex (btc_txn_context s) fee) s)"
proof -
  obtain r s1 where p: "present (all_pages ex 0 outs) s = (r, s1)" by fastforce
  have c: "btc_txn_context s1 = btc_txn_context s"
    using context_present [of "all_pages ex 0 outs" s] p by simp
  have "get_user_verification ex s =
      Some (present (all_pages ex 0 outs @ fee_pages ex (btc_txn_context s) fee) s)"
    using get_user_verification_present [OF assms(1,2), of ex] p c assms(3)
    by (simp add: present_append verify_fee_present)
  then show ?thesis by (simp add: present_presented)
qed

text \<open>
  One input of 100000 and a receiver of 90000. With a change of 9000 the fee is 1000,
  below the ceiling of 2000: the fee is presented with no warning, and accepted. With a
  change of 1000 the fee is 9000: the warning comes first and is accepted, the fee is
  presented next and declined.
\<close>

theorem get_user_verification_fee_prompts_witness:
  "map_option (\<lambda>(r, s). (r, trace s))
     (get_user_verification sample_externs
        (verify_state [input_of 100000] [receiver_of 90000, change_of 9000]
           [True, True, True])) =
   Some (True,
     [Core_scroll_page (UI_TEXT_BTC_RECEIVER 1) (Text ''1Receiver''),
      Core_scroll_page (UI_TEXT_BTC_RECEIVER 1) (Text ''0.0009 BTC''),
      Core_scroll_page UI_TEXT_BTC_FEE (Text ''some BTC'')]) \<and>
   map_option (\<lambda>(r, s). (r, trace s))
     (get_user_verification sample_externs
        (verify_state [input_of 100000] [receiver_of 90000, change_of 1000]
           [True, True, True, False])) =
   Some (False,
     [Core_scroll_page (UI_TEXT_BTC_RECEIVER 1) (Text ''1Receiver''),
      Core_scroll_page (UI_TEXT_BTC_RECEIVER 1) (Text ''0.0009 BTC''),
      Core_confirmation Ui_text_warning_txn_fee_too_high,
      Core_scroll_page UI_TEXT_BTC_FEE (Text ''some BTC'')])"
proof -
  let ?o1 = "[receiver_of 90000, change_of 9000]"
  let ?o2 = "[receiver_of 90000, change_of 1000]"
  let ?s1 = "verify_state [input_of 100000] ?o1 [True, True, True]"
  let ?s2 = "verify_state [input_of 100000] ?o2 [True, True, True, False]"
  have a1: "outputs (btc_txn_context ?s1) = Some ?o1"
    and b1: "outputs (btc_txn_context ?s2) = Some ?o2"
    by (simp_all add: verify_state_def)
  have a2: "unat (output_count (metadata (btc_txn_context ?s1))) = length ?o1"
    and b2: "unat (output_count (metadata (btc_txn_context ?s2))) = length ?o2"
    by (simp_all add: verify_state_def)
  have a3: "btc_get_txn_fee sample_externs (btc_txn_context ?s1) = Some 1000"
    and b3: "btc_get_txn_fee sample_externs (btc_txn_context ?s2) = Some 9000"
    by (simp_all add: sample_externs_def btc_get_txn_fee_spec_def sum_inputs_def
        sum_outputs_def verify_state_def input_of_def receiver_of_def change_of_def
        blank_input_def)
  have e1: "map_option (\<lambda>(r, s). (r, trace s))
      (Some (presented (all_pages sample_externs 0 ?o1 @
               fee_pages sample_externs (btc_txn_context ?s1) 1000) ?s1)) =
    Some (True,
     [Core_scroll_page (UI_TEXT_BTC_RECEIVER 1) (Text ''1Receiver''),
      Core_scroll_page (UI_TEXT_BTC_RECEIVER 1) (Text ''0.0009 BTC''),
      Core_scroll_page UI_TEXT_BTC_FEE (Text ''some BTC'')])"
    by (simp add: presented_def accepted_def receiver_pages_def fee_pages_def verify_state_def
        receiver_of_def change_of_def sample_externs_def)
  have e2: "map_option (\<lambda>(r, s). (r, trace s))
      (Some (presented (all_pages sample_externs 0 ?o2 @
               fee_pages sample_externs (btc_txn_context ?s2) 9000) ?s2)) =
    Some (False,
     [Core_scroll_page (UI_TEXT_BTC_RECEIVER 1) (Text ''1Receiver''),
      Core_scroll_page (UI_TEXT_BTC_RECEIVER 1) (Text ''0.0009 BTC''),
      Core_confirmation Ui_text_warning_txn_fee_too_high,
      Core_scroll_page UI_TEXT_BTC_FEE (Text ''some BTC'')])"
    by (simp add: presented_def accepted_def receiver_pages_def fee_pages_def verify_state_def
        receiver_of_def change_of_def sample_externs_def)
  show ?thesis
    unfolding get_user_verification_fee_prompts [OF a1 a2 a3]
      get_user_verification_fee_prompts [OF b1 b2 b3]
    using e1 e2 by (rule conjI)
qed

text \<open>
  C6: in the VERIFY phase, if the sum of the values of the outputs exceeds the sum of
  the values of the inputs, \<^verbatim>\<open>get_user_verification\<close> sends a CORRUPT\_DATA /
  INVALID\_DATA error and returns failure, so that such a transaction is never signed.
  The fee is computed by \<open>btc_get_txn_fee_spec\<close>. The function returns \<^verbatim>\<open>false\<close>
  whatever the user answers; the fee is computed after all the receivers are shown, so
  the error is sent once the user has accepted their pages, and is the last event.
\<close>

theorem get_user_verification_rejects_overspend:
  assumes "outputs (btc_txn_context s) = Some outs"
    and "unat (output_count (metadata (btc_txn_context s))) = length outs"
    and "btc_get_txn_fee ex = btc_get_txn_fee_spec"
    and "sum_inputs (btc_txn_context s) < sum_outputs (btc_txn_context s)"
  shows "get_user_verification ex s =
     (case presented (all_pages ex 0 outs) s of (r, s1) \<Rightarrow>
        Some (False, if r then btc_send_error ERROR_COMMON_ERROR_CORRUPT_DATA_TAG
                                ERROR_DATA_FLOW_INVALID_DATA s1
                     else s1))"
proof -
  obtain r s1 where p: "present (all_pages ex 0 outs) s = (r, s1)" by fastforce
  have c: "btc_txn_context s1 = btc_txn_context s"
    using context_present [of "all_pages ex 0 outs" s] p by simp
  have "btc_get_txn_fee ex (btc_txn_context s1) = None"
    using assms(3,4) c by (simp add: btc_get_txn_fee_spec_def)
  then have "verify_fee ex s1 = (False, btc_send_error ERROR_COMMON_ERROR_CORRUPT_DATA_TAG
                                ERROR_DATA_FLOW_INVALID_DATA s1)"
    by (simp add: verify_fee_def)
  then show ?thesis
    using get_user_verification_present [OF assms(1,2), of ex] p
    by (simp add: present_presented [symmetric])
qed

text \<open>Inputs of 50000, outputs of 60000; the user accepts the pages of the receiver.\<close>

theorem get_user_verification_rejects_overspend_witness:
  "map_option (\<lambda>(r, s). (r, trace s))
     (get_user_verification sample_externs
        (verify_state [input_of 50000] [receiver_of 60000] [True, True, True])) =
   Some (False,
     [Core_scroll_page (UI_TEXT_BTC_RECEIVER 1) (Text ''1Receiver''),
      Core_scroll_page (UI_TEXT_BTC_RECEIVER 1) (Text ''some BTC''),
      Btc_send_error ERROR_COMMON_ERROR_CORRUPT_DATA_TAG ERROR_DATA_FLOW_INVALID_DATA])"
proof -
  let ?outs = "[receiver_of 60000]"
  let ?s = "verify_state [input_of 50000] ?outs [True, True, True]"
  have h1: "outputs (btc_txn_context ?s) = Some ?outs"
    by (simp add: verify_state_def)
  have h2: "unat (output_count (metadata (btc_txn_context ?s))) = length ?outs"
    by (simp add: verify_state_def)
  have h3: "btc_get_txn_fee sample_externs = btc_get_txn_fee_spec"
    by (simp add: sample_externs_def)
  have h4: "sum_inputs (btc_txn_context ?s) < sum_outputs (btc_txn_context ?s)"
    by (simp add: sum_inputs_def sum_outputs_def verify_state_def input_of_def
        receiver_of_def blank_input_def)
  have e: "map_option (\<lambda>(r, s). (r, trace s))
     (case presented (all_pages sample_externs 0 ?outs) ?s of (r, s1) \<Rightarrow>
        Some (False, if r then btc_send_error ERROR_COMMON_ERROR_CORRUPT_DATA_TAG
                                ERROR_DATA_FLOW_INVALID_DATA s1
                     else s1)) =
   Some (False,
     [Core_scroll_page (UI_TEXT_BTC_RECEIVER 1) (Text ''1Receiver''),
      Core_scroll_page (UI_TEXT_BTC_RECEIVER 1) (Text ''some BTC''),
      Btc_send_error ERROR_COMMON_ERROR_CORRUPT_DATA_TAG ERROR_DATA_FLOW_INVALID_DATA])"
    by (simp add: presented_def accepted_def receiver_pages_def verify_state_def
        receiver_of_def sample_externs_def btc_send_error_def)
  show ?thesis
    unfolding get_user_verification_rejects_overspend [OF h1 h2 h3 h4] by (rule e)
qed

subsection \<open>The signature\<close>

lemma no_signature_handle_initiate_query:
  "handle_initiate_query ex s = (r, s') \<Longrightarrow> no_signature (trace s) \<Longrightarrow> no_signature (trace s')"
  by (auto simp: no_signature_def handle_initiate_query_def check_which_request_def
        validate_request_data_def core_confirmation_def core_status_set_flow_status_def
        next_answer_def btc_send_error_def send_response_def Let_def
      split: prod.splits if_splits option.splits list.splits)

lemma context_handle_initiate_query:
  "handle_initiate_query ex s = (False, s') \<Longrightarrow> btc_txn_context s' = btc_txn_context s"
  by (auto simp: handle_initiate_query_def check_which_request_def
        validate_request_data_def core_confirmation_def core_status_set_flow_status_def
        next_answer_def btc_send_error_def send_response_def Let_def
      split: prod.splits if_splits option.splits list.splits)

lemma no_signature_fetch_transaction_meta:
  "fetch_transaction_meta ex s = (r, s') \<Longrightarrow> no_signature (trace s) \<Longrightarrow> no_signature (trace s')"
  by (auto simp: no_signature_def fetch_transaction_meta_def check_which_request_def btc_get_query_def
        btc_send_error_def send_response_def Let_def
      split: prod.splits if_splits option.splits list.splits)

lemma context_fetch_transaction_meta:
  "fetch_transaction_meta ex s = (False, s') \<Longrightarrow> btc_txn_context s' = btc_txn_context s"
  by (auto simp: fetch_transaction_meta_def check_which_request_def btc_get_query_def
        btc_send_error_def send_response_def Let_def
      split: prod.splits if_splits option.splits list.splits)

lemma no_signature_fetch_valid_input_round:
  "fetch_valid_input_round ex idx s = Some (r, s') \<Longrightarrow> no_signature (trace s) \<Longrightarrow> no_signature (trace s')"
  by (auto simp: no_signature_def fetch_valid_input_round_def no_query_and_no_request_def
        check_which_request_def btc_get_query_def store_input_def
        btc_send_error_def send_response_def Let_def
      split: prod.splits if_splits option.splits list.splits)

lemma no_signature_fetch_valid_input_from:
  "fetch_valid_input_from ex idx s = Some (r, s') \<Longrightarrow> no_signature (trace s) \<Longrightarrow> no_signature (trace s')"
proof (induction ex idx s rule: fetch_valid_input_from.induct)
  case (1 ex idx s)
  show ?case
  proof (cases "idx < unat (input_count (metadata (btc_txn_context s)))")
    case False
    with "1.prems" show ?thesis by (simp add: fetch_valid_input_from.simps)
  next
    case True
    with "1.prems"(1) obtain r1 s1 where
      round: "fetch_valid_input_round ex idx s = Some (r1, s1)"
      and rest: "(if \<not> r1 then Some (False, s1) else fetch_valid_input_from ex (idx + 1) s1) = Some (r, s')"
      by (auto simp: fetch_valid_input_from.simps [of ex idx s] split: option.splits prod.splits)
    have u1: "no_signature (trace s1)"
      using no_signature_fetch_valid_input_round [OF round "1.prems"(2)] .
    show ?thesis
    proof (cases r1)
      case False
      with rest u1 show ?thesis by simp
    next
      case r1: True
      with rest have "fetch_valid_input_from ex (idx + 1) s1 = Some (r, s')" by simp
      with "1.IH" [OF True round refl] r1 u1 show ?thesis by simp
    qed
  qed
qed

lemma no_signature_fetch_valid_output_round:
  "fetch_valid_output_round idx z s = Some (r, z', s') \<Longrightarrow> no_signature (trace s) \<Longrightarrow> no_signature (trace s')"
  by (auto simp: no_signature_def fetch_valid_output_round_def no_query_and_no_request_def
        check_which_request_def btc_get_query_def store_output_def
        btc_send_error_def send_response_def Let_def
      split: prod.splits if_splits option.splits list.splits)

lemma no_signature_fetch_valid_output_from:
  "fetch_valid_output_from idx z s = Some (r, s') \<Longrightarrow> no_signature (trace s) \<Longrightarrow> no_signature (trace s')"
proof (induction idx z s rule: fetch_valid_output_from.induct)
  case (1 idx z s)
  show ?case
  proof (cases "idx < unat (output_count (metadata (btc_txn_context s)))")
    case False
    with "1.prems" show ?thesis
      by (auto simp: fetch_valid_output_from.simps [of idx z s] no_signature_def btc_send_error_def
          split: if_splits)
  next
    case True
    with "1.prems"(1) obtain r1 z1 s1 where
      round: "fetch_valid_output_round idx z s = Some (r1, z1, s1)"
      and rest: "(if \<not> r1 then Some (False, s1) else fetch_valid_output_from (idx + 1) z1 s1) = Some (r, s')"
      by (auto simp: fetch_valid_output_from.simps [of idx z s] split: option.splits prod.splits)
    have u1: "no_signature (trace s1)"
      using no_signature_fetch_valid_output_round [OF round "1.prems"(2)] .
    show ?thesis
    proof (cases r1)
      case False
      with rest u1 show ?thesis by simp
    next
      case r1: True
      with rest have "fetch_valid_output_from (idx + 1) z1 s1 = Some (r, s')" by simp
      with "1.IH" [OF True round refl refl] r1 u1 show ?thesis by simp
    qed
  qed
qed

lemma no_signature_get_user_verification_round:
  "get_user_verification_round ex idx s = Some (r, s') \<Longrightarrow> no_signature (trace s) \<Longrightarrow> no_signature (trace s')"
  by (auto simp: no_signature_def get_user_verification_round_def core_scroll_page_def next_answer_def
        Let_def
      split: prod.splits if_splits option.splits list.splits)

lemma no_signature_get_user_verification_from:
  "get_user_verification_from ex idx s = Some (r, s') \<Longrightarrow> no_signature (trace s) \<Longrightarrow> no_signature (trace s')"
proof (induction ex idx s rule: get_user_verification_from.induct)
  case (1 ex idx s)
  show ?case
  proof (cases "idx < unat (output_count (metadata (btc_txn_context s)))")
    case False
    with "1.prems" show ?thesis by (simp add: get_user_verification_from.simps)
  next
    case True
    with "1.prems"(1) obtain r1 s1 where
      round: "get_user_verification_round ex idx s = Some (r1, s1)"
      and rest: "(if \<not> r1 then Some (False, s1) else get_user_verification_from ex (idx + 1) s1) = Some (r, s')"
      by (auto simp: get_user_verification_from.simps [of ex idx s] split: option.splits prod.splits)
    have u1: "no_signature (trace s1)"
      using no_signature_get_user_verification_round [OF round "1.prems"(2)] .
    show ?thesis
    proof (cases r1)
      case False
      with rest u1 show ?thesis by simp
    next
      case r1: True
      with rest have "get_user_verification_from ex (idx + 1) s1 = Some (r, s')" by simp
      with "1.IH" [OF True round refl] r1 u1 show ?thesis by simp
    qed
  qed
qed

lemma no_signature_verify_fee:
  "verify_fee ex s = (r, s') \<Longrightarrow> no_signature (trace s) \<Longrightarrow> no_signature (trace s')"
  by (auto simp: no_signature_def verify_fee_def core_scroll_page_def core_confirmation_def
        next_answer_def btc_send_error_def Let_def
      split: prod.splits if_splits option.splits list.splits)

lemma no_signature_get_user_verification:
  "get_user_verification ex s = Some (r, s') \<Longrightarrow> no_signature (trace s) \<Longrightarrow> no_signature (trace s')"
  by (auto simp: get_user_verification_def split: option.splits prod.splits if_splits
      dest: no_signature_get_user_verification_from no_signature_verify_fee)

lemma no_signature_sign_input_utxo:
  "sign_input_utxo s = (r, s') \<Longrightarrow> no_signature (trace s) \<Longrightarrow> no_signature (trace s')"
  by (auto simp: no_signature_def sign_input_utxo_def check_which_request_def btc_get_query_def
        btc_send_error_def
      split: prod.splits if_splits option.splits list.splits)

lemma no_signature_call:
  assumes "call p f s = Some (r, s')" and "no_signature (trace s)"
    and "\<And>s0 r0 s1. f s0 = Some (r0, s1) \<Longrightarrow> no_signature (trace s0) \<Longrightarrow> no_signature (trace s1)"
  shows "no_signature (trace s')"
proof -
  from assms(1) obtain s1 where f: "f (emit (Call p) s) = Some (r, s1)"
    and s': "s' = emit (Returned p r) s1"
    by (auto simp: call_def split: option.splits)
  have "no_signature (trace (emit (Call p) s))" using assms(2) by (simp add: no_signature_def)
  from assms(3) [OF f this] s' show ?thesis by (simp add: no_signature_def)
qed

lemma no_signature_all_phases_failed:
  assumes "all_phases_failed ex s = Some (c, s')" and "no_signature (trace s)"
  shows "no_signature (trace s')"
proof -
  have c1: "no_signature (trace s1)"
    if "call Handle_initiate_query (\<lambda>s. Some (handle_initiate_query ex s)) s0 = Some (r, s1)"
      and "no_signature (trace s0)" for s0 r s1
    using that by (rule no_signature_call) (auto dest: no_signature_handle_initiate_query)
  have c2: "no_signature (trace s1)"
    if "call Fetch_transaction_meta (\<lambda>s. Some (fetch_transaction_meta ex s)) s0 = Some (r, s1)"
      and "no_signature (trace s0)" for s0 r s1
    using that by (rule no_signature_call) (auto dest: no_signature_fetch_transaction_meta)
  have c3: "no_signature (trace s1)"
    if "call Fetch_valid_input (fetch_valid_input ex) s0 = Some (r, s1)"
      and "no_signature (trace s0)" for s0 r s1
    using that by (rule no_signature_call) (auto simp: fetch_valid_input_def dest: no_signature_fetch_valid_input_from)
  have c4: "no_signature (trace s1)"
    if "call Fetch_valid_output fetch_valid_output s0 = Some (r, s1)"
      and "no_signature (trace s0)" for s0 r s1
    using that by (rule no_signature_call) (auto simp: fetch_valid_output_def dest: no_signature_fetch_valid_output_from)
  have c5: "no_signature (trace s1)"
    if "call Get_user_verification (get_user_verification ex) s0 = Some (r, s1)"
      and "no_signature (trace s0)" for s0 r s1
    using that by (rule no_signature_call) (auto dest: no_signature_get_user_verification)
  have c6: "no_signature (trace s1)"
    if "call Sign_input_utxo (\<lambda>s. Some (sign_input_utxo s)) s0 = Some (r, s1)"
      and "no_signature (trace s0)" for s0 r s1
    using that by (rule no_signature_call) (auto dest: no_signature_sign_input_utxo)
  from assms(1) obtain r1 s1 where
    p1: "call Handle_initiate_query (\<lambda>s. Some (handle_initiate_query ex s)) s = Some (r1, s1)"
    by (auto simp: all_phases_failed_def split: option.splits)
  note u1 = c1 [OF p1 assms(2)]
  show ?thesis
  proof (cases r1)
    case True
    with assms(1) p1 u1 show ?thesis by (simp add: all_phases_failed_def)
  next
    case f1: False
    with assms(1) p1 obtain r2 s2 where
      p2: "call Fetch_transaction_meta (\<lambda>s. Some (fetch_transaction_meta ex s)) s1 = Some (r2, s2)"
      by (auto simp: all_phases_failed_def split: option.splits)
    note u2 = c2 [OF p2 u1]
    show ?thesis
    proof (cases r2)
      case True
      with assms(1) p1 f1 p2 u2 show ?thesis by (simp add: all_phases_failed_def)
    next
      case f2: False
      with assms(1) p1 f1 p2 obtain r3 s3 where
        p3: "call Fetch_valid_input (fetch_valid_input ex) s2 = Some (r3, s3)"
        by (auto simp: all_phases_failed_def split: option.splits)
      note u3 = c3 [OF p3 u2]
      show ?thesis
      proof (cases r3)
        case True
        with assms(1) p1 f1 p2 f2 p3 u3 show ?thesis by (simp add: all_phases_failed_def)
      next
        case f3: False
        with assms(1) p1 f1 p2 f2 p3 obtain r4 s4 where
          p4: "call Fetch_valid_output fetch_valid_output s3 = Some (r4, s4)"
          by (auto simp: all_phases_failed_def split: option.splits)
        note u4 = c4 [OF p4 u3]
        show ?thesis
        proof (cases r4)
          case True
          with assms(1) p1 f1 p2 f2 p3 f3 p4 u4 show ?thesis by (simp add: all_phases_failed_def)
        next
          case f4: False
          with assms(1) p1 f1 p2 f2 p3 f3 p4 obtain r5 s5 where
            p5: "call Get_user_verification (get_user_verification ex) s4 = Some (r5, s5)"
            by (auto simp: all_phases_failed_def split: option.splits)
          note u5 = c5 [OF p5 u4]
          show ?thesis
          proof (cases r5)
            case True
            with assms(1) p1 f1 p2 f2 p3 f3 p4 f4 p5 u5 show ?thesis
              by (simp add: all_phases_failed_def)
          next
            case f5: False
            with assms(1) p1 f1 p2 f2 p3 f3 p4 f4 p5 obtain r6 s6 where
              p6: "call Sign_input_utxo (\<lambda>s. Some (sign_input_utxo s)) s5 = Some (r6, s6)"
              and s': "s' = s6"
              by (auto simp: all_phases_failed_def split: option.splits)
            from c6 [OF p6 u5] s' show ?thesis by simp
          qed
        qed
      qed
    qed
  qed
qed

text \<open>
  The flow starts with a zeroed context, and a phase that fails leaves the context as
  it was: when the loop over the inputs is reached, no input is declared, and the
  flow never reaches outside its storage.
\<close>

lemma all_phases_failed_total:
  assumes "input_count (metadata (btc_txn_context s)) = 0"
  shows "\<exists>c s'. all_phases_failed ex s = Some (c, s')"
proof -
  obtain r1 s1 where h: "handle_initiate_query ex (emit (Call Handle_initiate_query) s) = (r1, s1)"
    by fastforce
  show ?thesis
  proof (cases r1)
    case True
    with h show ?thesis by (auto simp: all_phases_failed_def call_def)
  next
    case f1: False
    with h have c1: "btc_txn_context s1 = btc_txn_context s"
      using context_handle_initiate_query [of ex "emit (Call Handle_initiate_query) s" s1] by simp
    obtain r2 s2 where m: "fetch_transaction_meta ex
        (emit (Call Fetch_transaction_meta) (emit (Returned Handle_initiate_query False) s1)) = (r2, s2)"
      by fastforce
    show ?thesis
    proof (cases r2)
      case True
      with h f1 m show ?thesis by (auto simp: all_phases_failed_def call_def)
    next
      case f2: False
      with m have "fetch_transaction_meta ex
        (emit (Call Fetch_transaction_meta) (emit (Returned Handle_initiate_query False) s1)) = (False, s2)"
        by simp
      from context_fetch_transaction_meta [OF this] c1
      have c2: "btc_txn_context s2 = btc_txn_context s" by simp
      have "fetch_valid_input ex
          (emit (Call Fetch_valid_input) (emit (Returned Fetch_transaction_meta False) s2)) =
        Some (True, emit (Call Fetch_valid_input) (emit (Returned Fetch_transaction_meta False) s2))"
        using c2 assms by (simp add: fetch_valid_input_def fetch_valid_input_from.simps)
      with h f1 m f2 show ?thesis by (auto simp: all_phases_failed_def call_def)
    qed
  qed
qed

text \<open>
  C9: the SIGN phase is a stub that always reports failure: \<^verbatim>\<open>sign_input_utxo\<close>
  returns \<^verbatim>\<open>false\<close> for every query, and no execution of \<^verbatim>\<open>btc_sign_transaction\<close>
  replies with a signature. The stub returns \<^verbatim>\<open>false\<close> in every state and adds no
  signature to the trace; every execution of the flow ends, and its trace holds no
  result that carries a signature.
\<close>

theorem sign_input_utxo_is_a_stub:
  "fst (sign_input_utxo s) = False \<and>
   no_signature (trace (snd (sign_input_utxo s))) = no_signature (trace s) \<and>
   (\<exists>s'. btc_sign_transaction ex q h u = Some s' \<and>
         Btc_send_result BTC_SIGN_TXN_RESPONSE_SIGNATURE_TAG \<notin> set (trace s'))"
proof (intro conjI)
  show "fst (sign_input_utxo s) = False"
    by (simp add: sign_input_utxo_def split: prod.splits)
next
  show "no_signature (trace (snd (sign_input_utxo s))) = no_signature (trace s)"
    by (auto simp: no_signature_def sign_input_utxo_def check_which_request_def
          btc_get_query_def btc_send_error_def
        split: prod.splits if_splits list.splits)
next
  have z: "input_count (metadata (btc_txn_context (start q h u))) = 0"
    by (simp add: start_def zero_context_def)
  from all_phases_failed_total [OF z] obtain c s1 where
    a: "all_phases_failed ex (start q h u) = Some (c, s1)" by blast
  have "no_signature (trace (start q h u))" by (simp add: no_signature_def start_def)
  from no_signature_all_phases_failed [OF a this] have u: "no_signature (trace s1)" .
  show "\<exists>s'. btc_sign_transaction ex q h u = Some s' \<and>
         Btc_send_result BTC_SIGN_TXN_RESPONSE_SIGNATURE_TAG \<notin> set (trace s')"
    using a u by (simp add: btc_sign_transaction_def no_signature_def Let_def)
qed

end
